theory Spec2Isabelle
  imports Complex_Main
begin

section \<open>Data model\<close>

text \<open>
  The unit under verification is \<^verbatim>\<open>chainerx/routines/linalg.cc\<close>: the entry points
  \<^verbatim>\<open>Dot\<close>, \<^verbatim>\<open>Eigh\<close> and \<^verbatim>\<open>Eigvalsh\<close>.  An array is a shape, a dtype, its elements in
  row-major (C) order and a flag telling whether a gradient is required for it.
  Dimension sizes are the non-negative \<^verbatim>\<open>int64_t\<close> values of a \<^verbatim>\<open>Shape\<close>; they are
  natural numbers here (no overflow is modelled), and only the argument of \<^verbatim>\<open>Reshape\<close>,
  which may hold \<^verbatim>\<open>-1\<close>, is a list of integers.  Devices are left out.
\<close>

datatype Dtype = kBool | kInt8 | kInt16 | kInt32 | kInt64 | kUInt8 | kFloat16 | kFloat32 | kFloat64

datatype error = DimensionError string | BackendError string

text \<open>
  Modelled from the spec: the element arithmetic of the tensor library is not part of
  the sources.  Elements are exact rationals extended by the two infinities and NaN, with
  the IEEE conventions the spec relies on (in particular \<open>1/\<infinity> = 0\<close>); rounding
  and signed zeros are not modelled.
\<close>

datatype elem = Fin rat | PInf | NInf | NaN

fun e_neg :: "elem \<Rightarrow> elem" where
  "e_neg (Fin x) = Fin (- x)"
| "e_neg PInf = NInf"
| "e_neg NInf = PInf"
| "e_neg NaN = NaN"

fun e_add :: "elem \<Rightarrow> elem \<Rightarrow> elem" where
  "e_add (Fin x) (Fin y) = Fin (x + y)"
| "e_add NaN _ = NaN"
| "e_add _ NaN = NaN"
| "e_add PInf NInf = NaN"
| "e_add NInf PInf = NaN"
| "e_add PInf _ = PInf"
| "e_add _ PInf = PInf"
| "e_add NInf _ = NInf"
| "e_add _ NInf = NInf"

definition e_sub :: "elem \<Rightarrow> elem \<Rightarrow> elem" where
  "e_sub x y = e_add x (e_neg y)"

fun e_sign :: "elem \<Rightarrow> int" where
  "e_sign (Fin x) = (if x < 0 then -1 else if x = 0 then 0 else 1)"
| "e_sign PInf = 1"
| "e_sign NInf = -1"
| "e_sign NaN = 0"

definition e_mul :: "elem \<Rightarrow> elem \<Rightarrow> elem" where
  "e_mul x y =
     (case (x, y) of
        (Fin p, Fin q) \<Rightarrow> Fin (p * q)
      | _ \<Rightarrow>
         (if x = NaN \<or> y = NaN then NaN
          else let s = e_sign x * e_sign y
               in if s = 0 then NaN else if 0 < s then PInf else NInf))"

fun e_recip :: "elem \<Rightarrow> elem" where
  "e_recip (Fin x) = (if x = 0 then PInf else Fin (1 / x))"
| "e_recip PInf = Fin 0"
| "e_recip NInf = Fin 0"
| "e_recip NaN = NaN"

record Array =
  shape :: "nat list"
  dtype :: Dtype
  elems :: "elem list"
  requires_grad :: bool

definition ndim :: "Array \<Rightarrow> nat" where
  "ndim a = length (shape a)"

definition GetTotalSize :: "Array \<Rightarrow> nat" where
  "GetTotalSize a = prod_list (shape a)"

section \<open>Collaborators that are not part of the unit\<close>

text \<open>
  The numeric kernels and the dtype promotion rule live outside the unit; they are
  parameters of the model.  A kernel either fails with a message (the exception it
  throws) or delivers the elements of its result.
  \<^item> \<open>ResultType\<close>: the promoted dtype of two operands;
  \<^item> \<open>DotKernel a_matrix b_matrix out_matrix\<close>: the 2-D matrix product;
  \<^item> \<open>Syevd a uplo\<close>: the symmetric eigensolver, giving the eigenvalues and the
    eigenvector matrix.
\<close>

record externs =
  ResultType :: "Array \<Rightarrow> Array \<Rightarrow> Dtype"
  DotKernel :: "Array \<Rightarrow> Array \<Rightarrow> Array \<Rightarrow> string + elem list"
  Syevd :: "Array \<Rightarrow> string \<Rightarrow> string + (elem list \<times> elem list)"

subsection \<open>Indexing in row-major order\<close>

fun indices :: "nat list \<Rightarrow> nat list list" where
  "indices [] = [[]]"
| "indices (d # ds) = concat (map (\<lambda>i. map ((#) i) (indices ds)) [0..<d])"

fun ravel :: "nat list \<Rightarrow> nat list \<Rightarrow> nat" where
  "ravel (d # ds) (i # js) = i * prod_list ds + ravel ds js"
| "ravel _ _ = 0"

text \<open>Reading an element; an offset beyond the stored elements (possible only when an
  array holds fewer elements than its shape asks for) reads NaN.\<close>

definition item :: "Array \<Rightarrow> nat list \<Rightarrow> elem" where
  "item a idx =
     (let off = ravel (shape a) idx
      in if off < length (elems a) then elems a ! off else NaN)"

subsection \<open>Creation and manipulation routines\<close>

text \<open>
  Modelled from the spec: \<^verbatim>\<open>Zeros\<close>, \<^verbatim>\<open>Empty\<close> and \<^verbatim>\<open>Eye\<close> of
  \<^verbatim>\<open>routines/creation.h\<close> are not part of the sources.  \<open>Zeros\<close> is the zero-filled
  tensor of a shape and dtype; the contents of \<open>Empty\<close> are unspecified and are always
  overwritten by the kernel before they are read; \<open>Eye n m k\<close> has ones on the
  \<open>k\<close>-th diagonal.  Fresh arrays require no gradient.
\<close>

definition Zeros :: "nat list \<Rightarrow> Dtype \<Rightarrow> Array" where
  "Zeros s dt = \<lparr>shape = s, dtype = dt, elems = replicate (prod_list s) (Fin 0), requires_grad = False\<rparr>"

definition Empty :: "nat list \<Rightarrow> Dtype \<Rightarrow> Array" where
  "Empty s dt = \<lparr>shape = s, dtype = dt, elems = replicate (prod_list s) NaN, requires_grad = False\<rparr>"

definition Eye :: "nat \<Rightarrow> nat \<Rightarrow> nat \<Rightarrow> Dtype \<Rightarrow> Array" where
  "Eye n m k dt =
     \<lparr>shape = [n, m], dtype = dt,
      elems = map (\<lambda>idx. if idx ! 1 = idx ! 0 + k then Fin 1 else Fin 0) (indices [n, m]),
      requires_grad = False\<rparr>"

text \<open>
  Modelled from the spec: \<^verbatim>\<open>Array::Transpose\<close>, \<^verbatim>\<open>Array::Reshape\<close> and \<^verbatim>\<open>ExpandDims\<close>
  of \<^verbatim>\<open>routines/manipulation.h\<close> are not part of the sources.  \<open>Transpose_axes\<close>
  permutes the axes (axis \<open>j\<close> of the result is axis \<open>axes ! j\<close> of the operand; the
  unit only ever passes a permutation), \<open>Transpose\<close> reverses them.  \<open>Reshape\<close>
  keeps the elements in row-major order and accepts one unknown dimension, written as a
  negative size, which it infers from the total size; a request that does not preserve the
  total size is a \<open>DimensionError\<close>.  Where the known dimensions multiply to zero the
  sizes do not determine the unknown one; the spec counts zero-sized operands as valid
  inputs, so the model resolves it to zero.
\<close>

definition position :: "nat list \<Rightarrow> nat \<Rightarrow> nat" where
  "position axes i = length (takeWhile (\<lambda>x. x \<noteq> i) axes)"

definition Transpose_axes :: "Array \<Rightarrow> nat list \<Rightarrow> Array" where
  "Transpose_axes a axes =
     (let s = map (\<lambda>ax. shape a ! ax) axes
      in a\<lparr>shape := s,
           elems := map (\<lambda>idx. item a (map (\<lambda>i. idx ! position axes i) [0..<length axes]))
                        (indices s)\<rparr>)"

definition Transpose :: "Array \<Rightarrow> Array" where
  "Transpose a = Transpose_axes a (rev [0..<ndim a])"

definition Reshape :: "Array \<Rightarrow> int list \<Rightarrow> error + Array" where
  "Reshape a newshape =
     (let total = int (GetTotalSize a);
          rest_size = prod_list (filter (\<lambda>d. 0 \<le> d) newshape);
          inferred = map (\<lambda>d. if d < 0 then (if rest_size = 0 then 0 else total div rest_size) else d)
                         newshape
      in if 1 < length (filter (\<lambda>d. d < 0) newshape)
         then Inl (DimensionError ''Can only specify one unknown dimension'')
         else if total \<noteq> prod_list inferred
         then Inl (DimensionError ''Cannot reshape array'')
         else Inr (a\<lparr>shape := map nat inferred\<rparr>))"

definition ExpandDims :: "Array \<Rightarrow> nat \<Rightarrow> Array" where
  "ExpandDims a axis = a\<lparr>shape := take axis (shape a) @ [1] @ drop axis (shape a)\<rparr>"

subsection \<open>Elementwise routines\<close>

text \<open>
  Modelled from the spec: the arithmetic operators of \<^verbatim>\<open>routines/arithmetic.h\<close>,
  \<^verbatim>\<open>Where\<close> of \<^verbatim>\<open>routines/indexing.h\<close>, \<^verbatim>\<open>Reciprocal\<close> and \<^verbatim>\<open>Diag\<close> are not part of
  the sources.  Binary operators broadcast their operands (shapes aligned at the last
  axis, a dimension of size one stretched) and apply the operation element by element; the
  result has the promoted dtype.  \<open>Where_scalar c x y\<close> takes \<open>x\<close> where the
  condition holds and the element of \<open>y\<close> elsewhere.  \<open>Diag\<close> places a vector on
  the diagonal of a matrix (zeros elsewhere) and reads the diagonal of a matrix.
\<close>

fun broadcast_rev :: "nat list \<Rightarrow> nat list \<Rightarrow> nat list option" where
  "broadcast_rev [] ys = Some ys"
| "broadcast_rev xs [] = Some xs"
| "broadcast_rev (x # xs) (y # ys) =
     (if x = y \<or> y = 1 then map_option ((#) x) (broadcast_rev xs ys)
      else if x = 1 then map_option ((#) y) (broadcast_rev xs ys)
      else None)"

definition broadcast_shapes :: "nat list \<Rightarrow> nat list \<Rightarrow> nat list option" where
  "broadcast_shapes s t = map_option rev (broadcast_rev (rev s) (rev t))"

definition bcast_index :: "nat list \<Rightarrow> nat list \<Rightarrow> nat list" where
  "bcast_index s idx =
     map (\<lambda>(d, i). if d = 1 then 0 else i) (zip s (drop (length idx - length s) idx))"

definition bcast_item :: "Array \<Rightarrow> nat list \<Rightarrow> elem" where
  "bcast_item a idx = item a (bcast_index (shape a) idx)"

definition BroadcastBinary ::
  "(elem \<Rightarrow> elem \<Rightarrow> elem) \<Rightarrow> Dtype \<Rightarrow> Array \<Rightarrow> Array \<Rightarrow> error + Array" where
  "BroadcastBinary f dt a b =
     (case broadcast_shapes (shape a) (shape b) of
        None \<Rightarrow> Inl (DimensionError ''operands could not be broadcast together'')
      | Some s \<Rightarrow>
          Inr \<lparr>shape = s, dtype = dt,
               elems = map (\<lambda>idx. f (bcast_item a idx) (bcast_item b idx)) (indices s),
               requires_grad = (requires_grad a \<or> requires_grad b)\<rparr>)"

definition Add :: "externs \<Rightarrow> Array \<Rightarrow> Array \<Rightarrow> error + Array" where
  "Add X a b = BroadcastBinary e_add (ResultType X a b) a b"

definition Subtract :: "externs \<Rightarrow> Array \<Rightarrow> Array \<Rightarrow> error + Array" where
  "Subtract X a b = BroadcastBinary e_sub (ResultType X a b) a b"

definition Multiply :: "externs \<Rightarrow> Array \<Rightarrow> Array \<Rightarrow> error + Array" where
  "Multiply X a b = BroadcastBinary e_mul (ResultType X a b) a b"

definition Where_scalar :: "Array \<Rightarrow> elem \<Rightarrow> Array \<Rightarrow> error + Array" where
  "Where_scalar c x y =
     BroadcastBinary (\<lambda>ce ye. if ce = Fin 0 then ye else x) (dtype y) c y"

definition Reciprocal :: "Array \<Rightarrow> Array" where
  "Reciprocal a = a\<lparr>elems := map e_recip (elems a)\<rparr>"

definition Diag :: "Array \<Rightarrow> error + Array" where
  "Diag v =
     (if ndim v = 1 then
        (let n = shape v ! 0
         in Inr (v\<lparr>shape := [n, n],
                   elems := map (\<lambda>idx. if idx ! 0 = idx ! 1 then item v [idx ! 0] else Fin 0)
                                (indices [n, n])\<rparr>))
      else if ndim v = 2 then
        (let n = min (shape v ! 0) (shape v ! 1)
         in Inr (v\<lparr>shape := [n], elems := map (\<lambda>i. item v [i, i]) [0..<n]\<rparr>))
      else Inl (DimensionError ''Input must be 1D or 2D.''))"

section \<open>The gradient engine as seen by the unit\<close>

text \<open>
  Modelled from the spec: the backprop mode (\<^verbatim>\<open>backprop_mode.h\<close>), the kernel
  dispatcher (\<^verbatim>\<open>backend.h\<close>) and the \<^verbatim>\<open>BackwardBuilder\<close> are not part of the sources.
  The engine state holds
  \<^item> \<open>mode_stack\<close>: the scoped recording modes, innermost first (\<open>False\<close> is a
    no-recording scope); gradients are recorded when the stack is empty or its innermost
    entry is \<open>True\<close>;
  \<^item> \<open>kernel_log\<close>: one entry per dispatched kernel, with the recording mode in
    force at the call;
  \<^item> \<open>tape\<close>: the finalized gradient rules, one node per \<^verbatim>\<open>BackwardBuilder\<close>.
  A gradient closure is the data it captures: its retained arrays (a token redeems to the
  retained array) and captured dtypes.  \<open>NoBackpropModeScope\<close> is a scope guard: its
  constructor pushes a no-recording entry and its destructor, which runs on every exit
  from the block, pops it.
\<close>

datatype closure =
    DotGradA Array Dtype
  | DotGradB Array Dtype
  | EighGrad Array Array Array

datatype target = Target nat "nat list" "nat list" closure

datatype op_node = OpNode string "target list"

record engine =
  mode_stack :: "bool list"
  kernel_log :: "(string \<times> bool) list"
  tape :: "op_node list"

definition is_recording :: "engine \<Rightarrow> bool" where
  "is_recording st = (case mode_stack st of [] \<Rightarrow> True | m # _ \<Rightarrow> m)"

definition NoBackpropModeScope_enter :: "engine \<Rightarrow> engine" where
  "NoBackpropModeScope_enter st = st\<lparr>mode_stack := False # mode_stack st\<rparr>"

definition NoBackpropModeScope_exit :: "engine \<Rightarrow> engine" where
  "NoBackpropModeScope_exit st = st\<lparr>mode_stack := tl (mode_stack st)\<rparr>"

text \<open>\<open>CreateTarget\<close> is non-empty when the input is differentiable in the current
  context: gradients are being recorded and the input requires one.\<close>

definition CreateTarget :: "engine \<Rightarrow> Array \<Rightarrow> bool" where
  "CreateTarget st x = (is_recording st \<and> requires_grad x)"

definition Finalize :: "string \<Rightarrow> target list \<Rightarrow> engine \<Rightarrow> engine" where
  "Finalize name ts st = st\<lparr>tape := tape st @ [OpNode name ts]\<rparr>"

definition CallKernel_DotKernel ::
  "externs \<Rightarrow> Array \<Rightarrow> Array \<Rightarrow> Array \<Rightarrow> engine \<Rightarrow> (error + Array) \<times> engine" where
  "CallKernel_DotKernel X a_matrix b_matrix out_matrix st =
     (case DotKernel X a_matrix b_matrix out_matrix of
        Inl msg \<Rightarrow> Inl (BackendError msg)
      | Inr d \<Rightarrow> Inr (out_matrix\<lparr>elems := d\<rparr>),
      st\<lparr>kernel_log := kernel_log st @ [(''DotKernel'', is_recording st)]\<rparr>)"

text \<open>
  Modelled from the spec: \<^verbatim>\<open>SyevdKernel\<close> (\<^verbatim>\<open>kernels/linalg.h\<close>) is not part of the
  sources.  It returns the eigenvalues \<open>w\<close> (rank 1, length \<open>n\<close>) and, if
  requested, the eigenvector matrix \<open>v\<close> (\<open>n\<close> by \<open>n\<close>); the eigenvalues do not
  depend on whether the eigenvectors are requested.  When they are not requested the
  contents of \<open>v\<close> are unspecified.
\<close>

definition SyevdKernel :: "externs \<Rightarrow> Array \<Rightarrow> string \<Rightarrow> bool \<Rightarrow> string + (Array \<times> Array)" where
  "SyevdKernel X a uplo compute_v =
     (case Syevd X a uplo of
        Inl msg \<Rightarrow> Inl msg
      | Inr (ws, vs) \<Rightarrow>
          (let n = shape a ! 0
           in Inr (\<lparr>shape = [n], dtype = dtype a, elems = ws, requires_grad = False\<rparr>,
                   \<lparr>shape = [n, n], dtype = dtype a,
                    elems = (if compute_v then vs else replicate (n * n) NaN),
                    requires_grad = False\<rparr>)))"

definition CallKernel_SyevdKernel ::
  "externs \<Rightarrow> Array \<Rightarrow> string \<Rightarrow> bool \<Rightarrow> engine \<Rightarrow> (error + (Array \<times> Array)) \<times> engine" where
  "CallKernel_SyevdKernel X a uplo compute_v st =
     (case SyevdKernel X a uplo compute_v of
        Inl msg \<Rightarrow> Inl (BackendError msg)
      | Inr wv \<Rightarrow> Inr wv,
      st\<lparr>kernel_log := kernel_log st @ [(''SyevdKernel'', is_recording st)]\<rparr>)"

section \<open>Dot\<close>

text \<open>Lines 39 to 61: the output shape and the right operand brought to the form
  \<open>[contracted, rest]\<close>.\<close>

definition Dot_shapes :: "Array \<Rightarrow> Array \<Rightarrow> error + (nat list \<times> Array)" where
  "Dot_shapes a b =
     (let out_shape = butlast (shape a)
      in if 2 < ndim b then
           (let axes_index = [0..<ndim b];
                b_transpose_axes = take (ndim b - 2) axes_index @ rev (drop (ndim b - 2) axes_index);
                modified_b = Transpose_axes b b_transpose_axes;
                out_shape = out_shape @ butlast (shape modified_b)
            in case Reshape modified_b [-1, int (last (shape modified_b))] of
                 Inl e \<Rightarrow> Inl e
               | Inr modified_b \<Rightarrow> Inr (out_shape, Transpose modified_b))
         else Inr (out_shape @ tl (shape b), b))"

text \<open>Lines 84 to 101: the gradient rule of the 2-D product.\<close>

definition Dot_backward ::
  "Array \<Rightarrow> Array \<Rightarrow> Array \<Rightarrow> Array \<Rightarrow> Array \<Rightarrow> engine \<Rightarrow> Array \<times> engine" where
  "Dot_backward a b a_matrix b_matrix out_matrix st =
     (let t0 = (if CreateTarget st a_matrix
                then [Target 0 [1] [] (DotGradA b_matrix (dtype a))] else []);
          t1 = (if CreateTarget st b_matrix
                then [Target 1 [0] [] (DotGradB a_matrix (dtype b))] else [])
      in (out_matrix\<lparr>requires_grad := (t0 @ t1 \<noteq> [])\<rparr>, Finalize ''dot'' (t0 @ t1) st))"

definition Dot ::
  "externs \<Rightarrow> Array \<Rightarrow> Array \<Rightarrow> Dtype option \<Rightarrow> engine \<Rightarrow> (error + Array) \<times> engine" where
  "Dot X a b out_dtype st =
     (let real_out_dtype = (case out_dtype of Some d \<Rightarrow> d | None \<Rightarrow> ResultType X a b)
      in if ndim a = 0 \<or> ndim b = 0 then (Multiply X a b, st)
         else
           case Dot_shapes a b of
             Inl e \<Rightarrow> (Inl e, st)
           | Inr (out_shape, modified_b) \<Rightarrow>
               (let k = shape a ! (ndim a - 1)
                in if shape modified_b ! 0 \<noteq> k
                   then (Inl (DimensionError ''Axis dimension mismatch''), st)
                   else if k = 0 then (Inr (Zeros out_shape real_out_dtype), st)
                   else
                     (let m = GetTotalSize a div k;
                          n = GetTotalSize b div k
                      in case Reshape a [int m, int k] of
                           Inl e \<Rightarrow> (Inl e, st)
                         | Inr a_matrix \<Rightarrow>
                            (case Reshape modified_b [int k, int n] of
                               Inl e \<Rightarrow> (Inl e, st)
                             | Inr b_matrix \<Rightarrow>
                                (let out_matrix = Empty [m, n] real_out_dtype;
                                     st1 = NoBackpropModeScope_enter st;
                                     (r, st2) = CallKernel_DotKernel X a_matrix b_matrix out_matrix st1;
                                     st3 = NoBackpropModeScope_exit st2
                                 in case r of
                                      Inl e \<Rightarrow> (Inl e, st3)
                                    | Inr out_matrix \<Rightarrow>
                                        (let (out_matrix, st4) =
                                               Dot_backward a b a_matrix b_matrix out_matrix st3
                                         in (Reshape out_matrix (map int out_shape), st4)))))))"

section \<open>Eigh and Eigvalsh\<close>

text \<open>Lines 131 to 147: the body of the gradient closure of \<open>Eigh\<close>, run with the
  retained input \<open>a\<close>, the retained outputs \<open>w\<close> and \<open>v\<close> and the two optional
  output gradients.  In the last line the operands of the sum are evaluated right to left,
  as the compiled code does: \<open>Diag gw\<close> before \<open>Dot vt gv\<close>.\<close>

definition EighBackward ::
  "externs \<Rightarrow> Array \<Rightarrow> Array \<Rightarrow> Array \<Rightarrow> Array option \<Rightarrow> Array option \<Rightarrow> engine
     \<Rightarrow> (error + Array) \<times> engine" where
  "EighBackward X a w v grad_w grad_v st =
     (let gw = (case grad_w of Some g \<Rightarrow> g | None \<Rightarrow> Zeros (shape w) (dtype a));
          gv = (case grad_v of Some g \<Rightarrow> g | None \<Rightarrow> Zeros (shape v) (dtype a));
          vt = Transpose v
      in case Subtract X (ExpandDims w 0) (ExpandDims w 1) of
           Inl e \<Rightarrow> (Inl e, st)
         | Inr F \<Rightarrow>
            (let mask = Eye (shape F ! 0) (shape F ! 1) 0 kBool
             in case Where_scalar mask PInf F of
                  Inl e \<Rightarrow> (Inl e, st)
                | Inr F \<Rightarrow>
                   (let F = Reciprocal F
                    in case Diag gw of
                         Inl e \<Rightarrow> (Inl e, st)
                       | Inr dg \<Rightarrow>
                          (case Dot X vt gv None st of
                             (Inl e, st1) \<Rightarrow> (Inl e, st1)
                           | (Inr vt_gv, st1) \<Rightarrow>
                              (case Multiply X F vt_gv of
                                 Inl e \<Rightarrow> (Inl e, st1)
                               | Inr scaled \<Rightarrow>
                                  (case Add X scaled dg of
                                     Inl e \<Rightarrow> (Inl e, st1)
                                   | Inr inner \<Rightarrow>
                                      (case Dot X v inner None st1 of
                                         (Inl e, st2) \<Rightarrow> (Inl e, st2)
                                       | (Inr left, st2) \<Rightarrow> Dot X left vt None st2)))))))"

text \<open>Running a registered closure on the output gradients supplied by the engine, one
  optional gradient per output.  The closures of \<open>Dot\<close> dereference their single
  output gradient unconditionally; the engine runs them only when it is present, and the
  model reports any other call as an error.\<close>

fun invoke ::
  "externs \<Rightarrow> closure \<Rightarrow> Array option list \<Rightarrow> engine \<Rightarrow> (error + Array) \<times> engine" where
  "invoke X (DotGradA b_matrix a_dtype) [Some gout] st =
     Dot X gout (Transpose b_matrix) (Some a_dtype) st"
| "invoke X (DotGradB a_matrix b_dtype) [Some gout] st =
     Dot X (Transpose a_matrix) gout (Some b_dtype) st"
| "invoke X (EighGrad a w v) [grad_w, grad_v] st = EighBackward X a w v grad_w grad_v st"
| "invoke X c gs st = (Inl (BackendError ''output gradient not available''), st)"

definition Eigh ::
  "externs \<Rightarrow> Array \<Rightarrow> string \<Rightarrow> engine \<Rightarrow> (error + (Array \<times> Array)) \<times> engine" where
  "Eigh X a uplo st =
     (if ndim a \<noteq> 2
      then (Inl (DimensionError ''ChainerX Eigh supports only 2-dimensional arrays.''), st)
      else if shape a ! 0 \<noteq> shape a ! 1
      then (Inl (DimensionError ''Matrix is not square.''), st)
      else
        (let st1 = NoBackpropModeScope_enter st;
             (r, st2) = CallKernel_SyevdKernel X a uplo True st1;
             st3 = NoBackpropModeScope_exit st2
         in case r of
              Inl e \<Rightarrow> (Inl e, st3)
            | Inr (w, v) \<Rightarrow>
               (let ts = (if CreateTarget st3 a
                          then [Target 0 [0] [0, 1] (EighGrad a w v)] else []);
                    st4 = Finalize ''eigh'' ts st3
                in (Inr (w\<lparr>requires_grad := (ts \<noteq> [])\<rparr>, v\<lparr>requires_grad := (ts \<noteq> [])\<rparr>), st4))))"

definition Eigvalsh ::
  "externs \<Rightarrow> Array \<Rightarrow> string \<Rightarrow> engine \<Rightarrow> (error + Array) \<times> engine" where
  "Eigvalsh X a uplo st =
     (if ndim a \<noteq> 2
      then (Inl (DimensionError ''ChainerX Eigvalsh supports only 2-dimensional arrays.''), st)
      else if shape a ! 0 \<noteq> shape a ! 1
      then (Inl (DimensionError ''Matrix is not square.''), st)
      else
        (let st1 = NoBackpropModeScope_enter st;
             (r, st2) = CallKernel_SyevdKernel X a uplo False st1;
             st3 = NoBackpropModeScope_exit st2
         in case r of
              Inl e \<Rightarrow> (Inl e, st3)
            | Inr (w, v) \<Rightarrow> (Inr w, st3)))"

text \<open>The closure of \<open>Eigh\<close> captures the outputs of the kernel; the arrays returned to
  the caller are the same arrays once the rule has connected them to the graph.
  \<open>detached\<close> gives back the captured array from a returned one.\<close>

definition detached :: "Array \<Rightarrow> Array" where
  "detached x = x\<lparr>requires_grad := False\<rparr>"

section \<open>The shape rule in the words of the specification\<close>

text \<open>
  The contracted dimension of the left operand is its last axis; that of the right
  operand is its first axis when its rank is at most two and its second-to-last axis
  otherwise.  The output shape is the left shape without its last axis followed by the
  right shape without its contracted axis.  \<open>real_dtype\<close> is the explicit result
  dtype when one is given and the promoted dtype otherwise.  \<open>dot_targets\<close> lists
  the gradient targets of the 2-D product: one per operand that is differentiable in the
  current context, each capturing the other operand's matrix and its own operand's dtype.
\<close>

definition contracted_a :: "Array \<Rightarrow> nat" where
  "contracted_a a = last (shape a)"

definition contracted_b :: "Array \<Rightarrow> nat" where
  "contracted_b b = (if ndim b \<le> 2 then shape b ! 0 else shape b ! (ndim b - 2))"

definition drop_axis :: "nat \<Rightarrow> nat list \<Rightarrow> nat list" where
  "drop_axis i s = take i s @ drop (Suc i) s"

definition Dot_out_shape_spec :: "Array \<Rightarrow> Array \<Rightarrow> nat list" where
  "Dot_out_shape_spec a b =
     drop_axis (ndim a - 1) (shape a) @
     drop_axis (if ndim b \<le> 2 then 0 else ndim b - 2) (shape b)"

text \<open>The 2-D reduction: the left operand reshaped to
  \<open>[flattened leading dimensions, contracted]\<close>, and the right operand brought to
  \<open>[contracted, flattened trailing dimensions]\<close>, by a reshape when its rank is at
  most two and otherwise by swapping its last two axes, flattening the leading ones and
  transposing.\<close>

definition a_matrix_of :: "Array \<Rightarrow> Array" where
  "a_matrix_of a = a\<lparr>shape := [GetTotalSize a div contracted_a a, contracted_a a]\<rparr>"

definition b_matrix_of :: "Array \<Rightarrow> Array" where
  "b_matrix_of b =
     (let k = contracted_b b;
          n = GetTotalSize b div k
      in if 2 < ndim b
         then Transpose
                ((Transpose_axes b
                    (take (ndim b - 2) [0..<ndim b] @ rev (drop (ndim b - 2) [0..<ndim b])))
                 \<lparr>shape := [n, k]\<rparr>)
         else b\<lparr>shape := [k, n]\<rparr>)"

definition real_dtype :: "externs \<Rightarrow> Array \<Rightarrow> Array \<Rightarrow> Dtype option \<Rightarrow> Dtype" where
  "real_dtype X a b out_dtype = (case out_dtype of Some d \<Rightarrow> d | None \<Rightarrow> ResultType X a b)"

definition dot_targets :: "engine \<Rightarrow> Array \<Rightarrow> Array \<Rightarrow> Array \<Rightarrow> Array \<Rightarrow> target list" where
  "dot_targets st a b a_matrix b_matrix =
     (if is_recording st \<and> requires_grad a
      then [Target 0 [1] [] (DotGradA b_matrix (dtype a))] else []) @
     (if is_recording st \<and> requires_grad b
      then [Target 1 [0] [] (DotGradB a_matrix (dtype b))] else [])"

section \<open>The gradient of Eigh in the words of the specification\<close>

text \<open>
  The specification builds the pairwise difference matrix \<open>F[i,j] = w[j] - w[i]\<close>,
  replaces its diagonal by positive infinity, and inverts it elementwise, which leaves
  zero on the diagonal and \<open>1 / (w[j] - w[i])\<close> elsewhere; the gradient is then
  \<open>v \<cdot> (F \<odot> (v\<^sup>t \<cdot> grad_v) + diag grad_w) \<cdot> v\<^sup>t\<close>, with a missing output
  gradient read as the zero tensor of the expected shape and dtype (\<open>grad_or_zeros\<close>).
  The three matrices and the formula (over gradients that are present) are written out
  here, to be compared with what the closure computes.
\<close>

definition F_difference :: "externs \<Rightarrow> Array \<Rightarrow> Array" where
  "F_difference X w =
     (let n = shape w ! 0
      in \<lparr>shape = [n, n],
          dtype = ResultType X (ExpandDims w 0) (ExpandDims w 1),
          elems = map (\<lambda>idx. e_sub (item w [idx ! 1]) (item w [idx ! 0])) (indices [n, n]),
          requires_grad = requires_grad w\<rparr>)"

definition F_masked :: "externs \<Rightarrow> Array \<Rightarrow> Array" where
  "F_masked X w =
     (let n = shape w ! 0
      in \<lparr>shape = [n, n],
          dtype = ResultType X (ExpandDims w 0) (ExpandDims w 1),
          elems = map (\<lambda>idx. if idx ! 0 = idx ! 1 then PInf
                             else e_sub (item w [idx ! 1]) (item w [idx ! 0]))
                      (indices [n, n]),
          requires_grad = requires_grad w\<rparr>)"

definition F_spec :: "externs \<Rightarrow> Array \<Rightarrow> Array" where
  "F_spec X w =
     (let n = shape w ! 0
      in \<lparr>shape = [n, n],
          dtype = ResultType X (ExpandDims w 0) (ExpandDims w 1),
          elems = map (\<lambda>idx. if idx ! 0 = idx ! 1 then Fin 0
                             else e_recip (e_sub (item w [idx ! 1]) (item w [idx ! 0])))
                      (indices [n, n]),
          requires_grad = requires_grad w\<rparr>)"

definition grad_or_zeros :: "nat list \<Rightarrow> Dtype \<Rightarrow> Array option \<Rightarrow> Array" where
  "grad_or_zeros s dt g = (case g of Some x \<Rightarrow> x | None \<Rightarrow> Zeros s dt)"

definition Eigh_grad_formula ::
  "externs \<Rightarrow> Array \<Rightarrow> Array \<Rightarrow> Array \<Rightarrow> Array \<Rightarrow> engine \<Rightarrow> (error + Array) \<times> engine" where
  "Eigh_grad_formula X w v gw gv st =
     (let vt = Transpose v;
          F = F_spec X w
      in case Diag gw of
           Inl e \<Rightarrow> (Inl e, st)
         | Inr dg \<Rightarrow>
            (case Dot X vt gv None st of
               (Inl e, st1) \<Rightarrow> (Inl e, st1)
             | (Inr vt_gv, st1) \<Rightarrow>
                (case Multiply X F vt_gv of
                   Inl e \<Rightarrow> (Inl e, st1)
                 | Inr scaled \<Rightarrow>
                    (case Add X scaled dg of
                       Inl e \<Rightarrow> (Inl e, st1)
                     | Inr inner \<Rightarrow>
                        (case Dot X v inner None st1 of
                           (Inl e, st2) \<Rightarrow> (Inl e, st2)
                         | (Inr left, st2) \<Rightarrow> Dot X left vt None st2)))))"

section \<open>Reference collaborators for evaluation\<close>

text \<open>
  Concrete stand-ins for the parameters, used to run the model on explicit inputs: a
  textbook matrix product, an eigensolver that handles diagonal matrices only (their
  eigenvalues are the diagonal, their eigenvectors the unit vectors) and fails on
  anything else, and a backend whose kernels always fail.
\<close>

definition ref_ResultType :: "Array \<Rightarrow> Array \<Rightarrow> Dtype" where
  "ref_ResultType a b = (if dtype a = dtype b then dtype a else kFloat64)"

definition ref_DotKernel :: "Array \<Rightarrow> Array \<Rightarrow> Array \<Rightarrow> string + elem list" where
  "ref_DotKernel a b out =
     Inr (map (\<lambda>idx. foldl e_add (Fin 0)
                  (map (\<lambda>l. e_mul (item a [idx ! 0, l]) (item b [l, idx ! 1])) [0..<shape a ! 1]))
              (indices (shape out)))"

definition ref_Syevd :: "Array \<Rightarrow> string \<Rightarrow> string + (elem list \<times> elem list)" where
  "ref_Syevd a uplo =
     (let n = shape a ! 0
      in if list_all (\<lambda>idx. idx ! 0 = idx ! 1 \<or> item a idx = Fin 0) (indices [n, n])
         then Inr (map (\<lambda>i. item a [i, i]) [0..<n], elems (Eye n n 0 (dtype a)))
         else Inl ''unsupported matrix'')"

definition ref_externs :: externs where
  "ref_externs = \<lparr>ResultType = ref_ResultType, DotKernel = ref_DotKernel, Syevd = ref_Syevd\<rparr>"

definition failing_externs :: externs where
  "failing_externs =
     \<lparr>ResultType = ref_ResultType,
      DotKernel = (\<lambda>a b out. Inl ''kernel failure''),
      Syevd = (\<lambda>a uplo. Inl ''kernel failure'')\<rparr>"

definition init_engine :: engine where
  "init_engine = \<lparr>mode_stack = [], kernel_log = [], tape = []\<rparr>"

definition mk_array :: "nat list \<Rightarrow> rat list \<Rightarrow> bool \<Rightarrow> Array" where
  "mk_array s xs g = \<lparr>shape = s, dtype = kFloat32, elems = map Fin xs, requires_grad = g\<rparr>"

section \<open>Shapes and reshapes\<close>

lemma map_nth_take: "k \<le> length s \<Longrightarrow> map ((!) s) [0..<k] = take k s"
  by (rule nth_equalityI) auto

lemma last_two_upt: "2 < n \<Longrightarrow> [n - 2..<n] = [n - 2, n - 1]"
proof -
  assume h: "2 < n"
  define k where "k = n - 2"
  have n: "n = Suc (Suc k)" using h by (simp add: k_def)
  have "[k..<Suc (Suc k)] = [k, Suc k]" by simp
  then show ?thesis unfolding k_def [symmetric] by (simp add: n)
qed

lemma swap_axes_shape:
  assumes "2 < length (s :: nat list)"
  shows "map (\<lambda>ax. s ! ax) (take (length s - 2) [0..<length s] @ rev (drop (length s - 2) [0..<length s]))
         = take (length s - 2) s @ [s ! (length s - 1), s ! (length s - 2)]"
proof -
  have "take (length s - 2) [0..<length s] = [0..<length s - 2]"
    by (simp add: take_upt)
  moreover have "drop (length s - 2) [0..<length s] = [length s - 2, length s - 1]"
    using assms by (simp add: drop_upt last_two_upt)
  ultimately show ?thesis
    by (simp add: map_nth_take)
qed

lemma drop_last_two:
  assumes "2 < length (s :: nat list)"
  shows "drop (length s - 2) s = [s ! (length s - 2), s ! (length s - 1)]"
proof -
  define n where "n = length s - 2"
  have n: "length s = Suc (Suc n)"
    using assms by (simp add: n_def)
  have "n < length s" using n by simp
  then have "drop n s = s ! n # drop (Suc n) s"
    by (rule Cons_nth_drop_Suc [symmetric])
  also have "drop (Suc n) s = s ! Suc n # drop (Suc (Suc n)) s"
    using n by (intro Cons_nth_drop_Suc [symmetric]) simp
  also have "drop (Suc (Suc n)) s = []" using n by simp
  finally show ?thesis unfolding n_def [symmetric] by (simp add: n)
qed

lemma drop_last_one:
  assumes "s \<noteq> []"
  shows "drop (length s - 1) s = [s ! (length s - 1)]"
proof -
  obtain n where n: "length s = Suc n"
    using assms by (cases s) auto
  have "n < length s" using n by simp
  then have "drop n s = s ! n # drop (Suc n) s"
    by (rule Cons_nth_drop_Suc [symmetric])
  also have "drop (Suc n) s = []" using n by simp
  finally show ?thesis using n by simp
qed

lemma split_last_two:
  assumes "2 < length (s :: nat list)"
  shows "s = take (length s - 2) s @ [s ! (length s - 2), s ! (length s - 1)]"
  using drop_last_two [OF assms] by (metis append_take_drop_id)

lemma drop_axis_last: "s \<noteq> [] \<Longrightarrow> drop_axis (length s - 1) s = butlast s"
  by (simp add: drop_axis_def butlast_conv_take)

lemma drop_axis_first: "drop_axis 0 s = tl s"
  by (simp add: drop_axis_def drop_Suc)

lemma drop_axis_second_last:
  assumes "2 < length (s :: nat list)"
  shows "drop_axis (length s - 2) s = take (length s - 2) s @ [s ! (length s - 1)]"
proof -
  have "Suc (length s - 2) = length s - 1" using assms by simp
  moreover have "s \<noteq> []" using assms by auto
  ultimately show ?thesis
    using drop_last_one [of s] by (simp add: drop_axis_def)
qed

lemma Reshape_infer_last:
  assumes "shape x \<noteq> []"
  shows "Reshape x [-1, int (last (shape x))] =
         Inr (x\<lparr>shape := [if last (shape x) = 0 then 0 else GetTotalSize x div last (shape x),
                          last (shape x)]\<rparr>)"
proof -
  have d: "last (shape x) dvd prod_list (shape x)"
    using assms by (simp add: prod_list_dvd)
  show ?thesis
  proof (cases "last (shape x) = 0")
    case True
    then have "prod_list (shape x) = 0" using d by simp
    with True show ?thesis by (simp add: Reshape_def GetTotalSize_def)
  next
    case False
    have "prod_list (shape x) div last (shape x) * last (shape x) = prod_list (shape x)"
      using d by simp
    then have "int (prod_list (shape x) div last (shape x)) * int (last (shape x)) = int (prod_list (shape x))"
      by (metis of_nat_mult)
    with False show ?thesis
      by (simp add: Reshape_def GetTotalSize_def zdiv_int [symmetric])
  qed
qed

lemma Reshape_matrix:
  assumes "GetTotalSize x = m * k"
  shows "Reshape x [int m, int k] = Inr (x\<lparr>shape := [m, k]\<rparr>)"
  using assms by (simp add: Reshape_def)

lemma Reshape_same_size:
  assumes "GetTotalSize x = prod_list s"
  shows "Reshape x (map int s) = Inr (x\<lparr>shape := s\<rparr>)"
proof -
  have f: "filter (\<lambda>d. d < 0) (map int s) = []" by (induction s) auto
  have m: "map (\<lambda>d. if d < 0 then c else d) (map int s) = map int s" for c
    by (induction s) auto
  have p: "prod_list (map int s) = int (prod_list s)" by (induction s) auto
  have n: "map nat (map int s) = s" by (induction s) auto
  show ?thesis using assms
    unfolding Reshape_def Let_def f m p n by simp
qed

lemma Transpose_matrix_shape: "shape x = [r, c] \<Longrightarrow> shape (Transpose x) = [c, r]"
  by (simp add: Transpose_def Transpose_axes_def ndim_def Let_def numeral_2_eq_2)

lemma Transpose_axes_shape: "shape (Transpose_axes x axes) = map ((!) (shape x)) axes"
  by (simp add: Transpose_axes_def Let_def)

lemma Transpose_axes_grad: "requires_grad (Transpose_axes x axes) = requires_grad x"
  by (simp add: Transpose_axes_def Let_def)

lemma Transpose_grad: "requires_grad (Transpose x) = requires_grad x"
  by (simp add: Transpose_def Transpose_axes_def Let_def)

lemma Dot_shapes_low:
  "ndim b \<le> 2 \<Longrightarrow> Dot_shapes a b = Inr (butlast (shape a) @ tl (shape b), b)"
  by (simp add: Dot_shapes_def)

lemma Dot_shapes_high:
  assumes "2 < ndim b"
  shows "\<exists>mb. Dot_shapes a b = Inr (butlast (shape a) @ drop_axis (ndim b - 2) (shape b), mb)
           \<and> shape mb = [contracted_b b,
                         if contracted_b b = 0 then 0 else GetTotalSize b div contracted_b b]
           \<and> requires_grad mb = requires_grad b
           \<and> (contracted_b b \<noteq> 0 \<longrightarrow> mb = b_matrix_of b)"
proof -
  define s where "s = shape b"
  define mb1 where "mb1 = Transpose_axes b
     (take (ndim b - 2) [0..<ndim b] @ rev (drop (ndim b - 2) [0..<ndim b]))"
  have len: "2 < length s" using assms by (simp add: s_def ndim_def)
  have sh1: "shape mb1 = take (length s - 2) s @ [s ! (length s - 1), s ! (length s - 2)]"
    using swap_axes_shape [OF len] by (simp only: mb1_def Transpose_axes_shape ndim_def s_def)
  have last1: "last (shape mb1) = contracted_b b"
    using assms by (simp add: sh1 contracted_b_def s_def ndim_def)
  have bl: "butlast (shape mb1) = drop_axis (ndim b - 2) (shape b)"
    using drop_axis_second_last [OF len] by (simp add: sh1 butlast_append s_def ndim_def)
  have "prod_list (shape mb1) = prod_list (take (length s - 2) s @ [s ! (length s - 2), s ! (length s - 1)])"
    by (simp add: sh1 mult.commute)
  also have "\<dots> = prod_list s"
    using split_last_two [OF len] by simp
  finally have tot: "GetTotalSize mb1 = GetTotalSize b"
    by (simp add: GetTotalSize_def s_def)
  have ne: "shape mb1 \<noteq> []" by (simp add: sh1)
  have g1: "requires_grad mb1 = requires_grad b" by (simp add: mb1_def Transpose_axes_grad)
  have "Dot_shapes a b =
        Inr (butlast (shape a) @ butlast (shape mb1),
             Transpose (mb1\<lparr>shape := [if last (shape mb1) = 0 then 0 else GetTotalSize mb1 div last (shape mb1),
                          last (shape mb1)]\<rparr>))"
    unfolding Dot_shapes_def Let_def mb1_def [symmetric]
    using assms by (simp only: Reshape_infer_last [OF ne] if_True sum.case)
  moreover have "contracted_b b \<noteq> 0 \<longrightarrow>
      Transpose (mb1\<lparr>shape := [if last (shape mb1) = 0 then 0 else GetTotalSize mb1 div last (shape mb1),
                          last (shape mb1)]\<rparr>) = b_matrix_of b"
  proof
    assume nz: "contracted_b b \<noteq> 0"
    have "b_matrix_of b
          = Transpose (mb1\<lparr>shape := [GetTotalSize b div contracted_b b, contracted_b b]\<rparr>)"
      using assms by (simp add: b_matrix_of_def Let_def mb1_def)
    then show "Transpose (mb1\<lparr>shape := [if last (shape mb1) = 0 then 0 else GetTotalSize mb1 div last (shape mb1),
                          last (shape mb1)]\<rparr>) = b_matrix_of b"
      using nz by (simp add: last1 tot)
  qed
  ultimately show ?thesis
    using last1 bl tot g1
    by (auto simp: Transpose_matrix_shape Transpose_grad)
qed


section \<open>The three outcomes of the product\<close>

lemma prod_drop_axis:
  assumes "i < length (s :: nat list)"
  shows "prod_list s = s ! i * prod_list (drop_axis i s)"
proof -
  have "prod_list s = prod_list (take i s @ s ! i # drop (Suc i) s)"
    using id_take_nth_drop [OF assms] by simp
  then show ?thesis by (simp add: drop_axis_def)
qed

lemma contracted_a_nth: "0 < ndim a \<Longrightarrow> contracted_a a = shape a ! (ndim a - 1)"
  by (simp add: contracted_a_def ndim_def last_conv_nth)

lemma Dot_out_shape_low:
  "0 < ndim a \<Longrightarrow> ndim b \<le> 2 \<Longrightarrow> Dot_out_shape_spec a b = butlast (shape a) @ tl (shape b)"
  using drop_axis_last [of "shape a"]
  by (simp add: Dot_out_shape_spec_def drop_axis_first ndim_def)

lemma Dot_out_shape_high:
  "0 < ndim a \<Longrightarrow> 2 < ndim b \<Longrightarrow>
   Dot_out_shape_spec a b = butlast (shape a) @ drop_axis (ndim b - 2) (shape b)"
  using drop_axis_last [of "shape a"]
  by (simp add: Dot_out_shape_spec_def ndim_def)

lemma contracted_b_dvd:
  assumes "0 < ndim b"
  shows "contracted_b b dvd GetTotalSize b"
proof -
  have "contracted_b b \<in> set (shape b)"
    using assms by (auto simp: contracted_b_def ndim_def)
  then show ?thesis by (simp add: GetTotalSize_def prod_list_dvd)
qed

lemma Dot_shapes_total:
  assumes "0 < ndim a" "0 < ndim b"
  shows "\<exists>mb. Dot_shapes a b = Inr (Dot_out_shape_spec a b, mb)
           \<and> shape mb ! 0 = contracted_b b
           \<and> GetTotalSize mb = GetTotalSize b
           \<and> requires_grad mb = requires_grad b
           \<and> (contracted_b b \<noteq> 0 \<longrightarrow>
                mb\<lparr>shape := [contracted_b b, GetTotalSize b div contracted_b b]\<rparr> = b_matrix_of b)"
proof (cases "ndim b \<le> 2")
  case True
  then show ?thesis
    using assms by (simp add: Dot_shapes_low Dot_out_shape_low contracted_b_def b_matrix_of_def Let_def)
next
  case False
  then have hi: "2 < ndim b" by simp
  obtain mb where mb: "Dot_shapes a b = Inr (butlast (shape a) @ drop_axis (ndim b - 2) (shape b), mb)"
      "shape mb = [contracted_b b, if contracted_b b = 0 then 0 else GetTotalSize b div contracted_b b]"
      "requires_grad mb = requires_grad b"
      "contracted_b b \<noteq> 0 \<longrightarrow> mb = b_matrix_of b"
    using Dot_shapes_high [OF hi] by blast
  have same: "contracted_b b \<noteq> 0 \<longrightarrow>
      mb\<lparr>shape := [contracted_b b, GetTotalSize b div contracted_b b]\<rparr> = b_matrix_of b"
  proof
    assume nz: "contracted_b b \<noteq> 0"
    then have "mb\<lparr>shape := [contracted_b b, GetTotalSize b div contracted_b b]\<rparr> = mb\<lparr>shape := shape mb\<rparr>"
      using mb(2) by simp
    then show "mb\<lparr>shape := [contracted_b b, GetTotalSize b div contracted_b b]\<rparr> = b_matrix_of b"
      using mb(4) nz by simp
  qed
  have "GetTotalSize mb = GetTotalSize b"
  proof (cases "contracted_b b = 0")
    case True
    then show ?thesis using contracted_b_dvd [OF assms(2)] mb(2) by (simp add: GetTotalSize_def)
  next
    case False
    then show ?thesis using contracted_b_dvd [OF assms(2)] mb(2) by (simp add: GetTotalSize_def)
  qed
  then show ?thesis
    using mb(1,2,3) same assms hi by (simp add: Dot_out_shape_high)
qed

lemma prod_out_shape:
  assumes "0 < ndim a" "0 < ndim b" "contracted_a a = contracted_b b" "contracted_a a \<noteq> 0"
  shows "prod_list (Dot_out_shape_spec a b)
         = (GetTotalSize a div contracted_a a) * (GetTotalSize b div contracted_a a)"
proof -
  let ?i = "ndim a - 1" and ?j = "if ndim b \<le> 2 then 0 else ndim b - 2"
  have "GetTotalSize a = contracted_a a * prod_list (drop_axis ?i (shape a))"
    using assms(1) prod_drop_axis [of ?i "shape a"]
    by (simp add: contracted_a_nth GetTotalSize_def ndim_def)
  then have A: "GetTotalSize a div contracted_a a = prod_list (drop_axis ?i (shape a))"
    using assms(4) by simp
  have "?j < length (shape b)" using assms(2) by (auto simp: ndim_def)
  then have "GetTotalSize b = contracted_b b * prod_list (drop_axis ?j (shape b))"
    using prod_drop_axis [of ?j "shape b"]
    by (auto simp: contracted_b_def GetTotalSize_def)
  then have B: "GetTotalSize b div contracted_a a = prod_list (drop_axis ?j (shape b))"
    using assms(3,4) by simp
  show ?thesis by (simp add: Dot_out_shape_spec_def A B)
qed

lemma is_recording_enter: "is_recording (NoBackpropModeScope_enter st) = False"
  by (simp add: is_recording_def NoBackpropModeScope_enter_def)



lemma Dot_mismatch:
  assumes "0 < ndim a" "0 < ndim b" "contracted_a a \<noteq> contracted_b b"
  shows "Dot X a b od st = (Inl (DimensionError ''Axis dimension mismatch''), st)"
proof -
  obtain mb where mb: "Dot_shapes a b = Inr (Dot_out_shape_spec a b, mb)"
      "shape mb ! 0 = contracted_b b"
    using Dot_shapes_total [OF assms(1,2)] by blast
  show ?thesis
    using assms mb by (simp add: Dot_def Let_def contracted_a_nth)
qed

lemma Dot_zero:
  assumes "0 < ndim a" "0 < ndim b" "contracted_a a = contracted_b b" "contracted_a a = 0"
  shows "Dot X a b od st = (Inr (Zeros (Dot_out_shape_spec a b) (real_dtype X a b od)), st)"
proof -
  obtain mb where mb: "Dot_shapes a b = Inr (Dot_out_shape_spec a b, mb)"
      "shape mb ! 0 = contracted_b b"
    using Dot_shapes_total [OF assms(1,2)] by blast
  show ?thesis
    using assms mb contracted_a_nth [OF assms(1)]
    by (simp add: Dot_def Let_def real_dtype_def)
qed


lemma Dot_kernel_path:
  assumes "0 < ndim a" "0 < ndim b" "contracted_a a = contracted_b b" "contracted_a a \<noteq> 0"
  shows "\<exists>a_matrix b_matrix.
           a_matrix = a_matrix_of a
         \<and> b_matrix = b_matrix_of b
         \<and> shape b_matrix = [contracted_a a, GetTotalSize b div contracted_a a]
         \<and> requires_grad b_matrix = requires_grad b
         \<and> Dot X a b od st =
             (case DotKernel X a_matrix b_matrix
                     (Empty [GetTotalSize a div contracted_a a, GetTotalSize b div contracted_a a]
                        (real_dtype X a b od)) of
                Inl msg \<Rightarrow>
                  (Inl (BackendError msg),
                   st\<lparr>kernel_log := kernel_log st @ [(''DotKernel'', False)]\<rparr>)
              | Inr d \<Rightarrow>
                  (Inr \<lparr>shape = Dot_out_shape_spec a b, dtype = real_dtype X a b od, elems = d,
                        requires_grad = (dot_targets st a b a_matrix b_matrix \<noteq> [])\<rparr>,
                   st\<lparr>kernel_log := kernel_log st @ [(''DotKernel'', False)],
                      tape := tape st @ [OpNode ''dot'' (dot_targets st a b a_matrix b_matrix)]\<rparr>))"
proof -
  define k where "k = contracted_a a"
  define m where "m = GetTotalSize a div k"
  define n where "n = GetTotalSize b div k"
  define rd where "rd = real_dtype X a b od"
  define am where "am = a\<lparr>shape := [m, k]\<rparr>"
  obtain mb where mb: "Dot_shapes a b = Inr (Dot_out_shape_spec a b, mb)"
      "shape mb ! 0 = contracted_b b" "GetTotalSize mb = GetTotalSize b"
      "requires_grad mb = requires_grad b"
      "contracted_b b \<noteq> 0 \<longrightarrow>
         mb\<lparr>shape := [contracted_b b, GetTotalSize b div contracted_b b]\<rparr> = b_matrix_of b"
    using Dot_shapes_total [OF assms(1,2)] by blast
  define bm where "bm = mb\<lparr>shape := [k, n]\<rparr>"
  have k0: "k \<noteq> 0" using assms(4) by (simp add: k_def)
  have ka: "shape a ! (ndim a - 1) = k"
    using contracted_a_nth [OF assms(1)] by (simp add: k_def)
  have kb: "shape mb ! 0 = k" using mb(2) assms(3) by (simp add: k_def)
  have "k \<in> set (shape a)" using assms(1) by (simp add: k_def contracted_a_def ndim_def)
  then have "k dvd GetTotalSize a" by (simp add: GetTotalSize_def prod_list_dvd)
  then have ta: "GetTotalSize a = m * k" by (simp add: m_def)
  have "k dvd GetTotalSize b" using contracted_b_dvd [OF assms(2)] assms(3) by (simp add: k_def)
  then have tb: "GetTotalSize mb = k * n" using mb(3) by (simp add: n_def)
  have ra: "Reshape a [int m, int k] = Inr am"
    unfolding am_def using ta by (rule Reshape_matrix)
  have rb: "Reshape mb [int k, int n] = Inr bm"
    unfolding bm_def using tb by (rule Reshape_matrix)
  have po: "prod_list (Dot_out_shape_spec a b) = m * n"
    using prod_out_shape [OF assms] by (simp add: m_def n_def k_def)
  have ro: "Reshape x (map int (Dot_out_shape_spec a b)) = Inr (x\<lparr>shape := Dot_out_shape_spec a b\<rparr>)"
    if "shape x = [m, n]" for x
    using that po by (intro Reshape_same_size) (simp add: GetTotalSize_def)
  have nz: "\<not> (ndim a = 0 \<or> ndim b = 0)" using assms(1,2) by simp
  have step: "Dot X a b od st =
       (let out_matrix = Empty [m, n] rd;
            st1 = NoBackpropModeScope_enter st;
            (r, st2) = CallKernel_DotKernel X am bm out_matrix st1;
            st3 = NoBackpropModeScope_exit st2
        in case r of
             Inl e \<Rightarrow> (Inl e, st3)
           | Inr out_matrix \<Rightarrow>
               (let (out_matrix, st4) = Dot_backward a b am bm out_matrix st3
                in (Reshape out_matrix (map int (Dot_out_shape_spec a b)), st4)))"
    unfolding Dot_def Let_def
    by (simp only: nz if_False mb(1) sum.case prod.case ka kb k0 simp_thms
          m_def [symmetric] n_def [symmetric] ra rb
          real_dtype_def [symmetric] rd_def [symmetric])
  have ex: "NoBackpropModeScope_exit
              ((NoBackpropModeScope_enter st)\<lparr>kernel_log := l\<rparr>) = st\<lparr>kernel_log := l\<rparr>" for l
    by (simp add: NoBackpropModeScope_exit_def NoBackpropModeScope_enter_def)
  have rec: "is_recording (st\<lparr>kernel_log := l\<rparr>) = is_recording st" for l
    by (simp add: is_recording_def)
  have klog: "kernel_log (NoBackpropModeScope_enter st) = kernel_log st"
    by (simp add: NoBackpropModeScope_enter_def)
  have main: "Dot X a b od st =
             (case DotKernel X am bm (Empty [m, n] rd) of
                Inl msg \<Rightarrow>
                  (Inl (BackendError msg),
                   st\<lparr>kernel_log := kernel_log st @ [(''DotKernel'', False)]\<rparr>)
              | Inr d \<Rightarrow>
                  (Inr \<lparr>shape = Dot_out_shape_spec a b, dtype = rd, elems = d,
                        requires_grad = (dot_targets st a b am bm \<noteq> [])\<rparr>,
                   st\<lparr>kernel_log := kernel_log st @ [(''DotKernel'', False)],
                      tape := tape st @ [OpNode ''dot'' (dot_targets st a b am bm)]\<rparr>))"
  proof (cases "DotKernel X am bm (Empty [m, n] rd)")
    case (Inl msg)
    then show ?thesis
      unfolding step
      by (simp add: CallKernel_DotKernel_def is_recording_enter ex klog)
  next
    case (Inr d)
    have ga: "requires_grad am = requires_grad a" by (simp add: am_def)
    have gb: "requires_grad bm = requires_grad b" by (simp add: bm_def mb(4))
    have sh: "shape ((Empty [m, n] rd)\<lparr>elems := d, requires_grad := g\<rparr>) = [m, n]" for g
      by (simp add: Empty_def)
    show ?thesis
      unfolding step
      by (simp add: Inr CallKernel_DotKernel_def is_recording_enter ex klog
            Dot_backward_def Let_def ro [OF sh] Finalize_def
            CreateTarget_def rec ga gb dot_targets_def)
         (simp add: Empty_def)
  qed
  note main' = main [unfolded rd_def am_def bm_def m_def n_def k_def]
  show ?thesis
    apply (rule exI [of _ "a\<lparr>shape := [GetTotalSize a div contracted_a a, contracted_a a]\<rparr>"])
    apply (rule exI [of _ "mb\<lparr>shape := [contracted_a a, GetTotalSize b div contracted_a a]\<rparr>"])
    apply (intro conjI)
        apply (simp add: a_matrix_of_def)
       apply (use mb(5) assms(3,4) in simp)
      apply simp
     apply (simp add: mb(4))
    apply (rule main')
    done
qed

lemma Dot_kernel_explicit:
  assumes "0 < ndim a" "0 < ndim b" "contracted_a a = contracted_b b" "contracted_a a \<noteq> 0"
  shows "Dot X a b od st =
             (case DotKernel X (a_matrix_of a) (b_matrix_of b)
                     (Empty [GetTotalSize a div contracted_a a, GetTotalSize b div contracted_a a]
                        (real_dtype X a b od)) of
                Inl msg \<Rightarrow>
                  (Inl (BackendError msg),
                   st\<lparr>kernel_log := kernel_log st @ [(''DotKernel'', False)]\<rparr>)
              | Inr d \<Rightarrow>
                  (Inr \<lparr>shape = Dot_out_shape_spec a b, dtype = real_dtype X a b od, elems = d,
                        requires_grad = (dot_targets st a b (a_matrix_of a) (b_matrix_of b) \<noteq> [])\<rparr>,
                   st\<lparr>kernel_log := kernel_log st @ [(''DotKernel'', False)],
                      tape := tape st @
                        [OpNode ''dot'' (dot_targets st a b (a_matrix_of a) (b_matrix_of b))]\<rparr>))"
    and "shape (b_matrix_of b) = [contracted_a a, GetTotalSize b div contracted_a a]"
    and "requires_grad (b_matrix_of b) = requires_grad b"
proof -
  obtain am bm where e: "am = a_matrix_of a" "bm = b_matrix_of b"
    and sb: "shape bm = [contracted_a a, GetTotalSize b div contracted_a a]"
    and gb: "requires_grad bm = requires_grad b"
    and D: "Dot X a b od st =
             (case DotKernel X am bm
                     (Empty [GetTotalSize a div contracted_a a, GetTotalSize b div contracted_a a]
                        (real_dtype X a b od)) of
                Inl msg \<Rightarrow>
                  (Inl (BackendError msg),
                   st\<lparr>kernel_log := kernel_log st @ [(''DotKernel'', False)]\<rparr>)
              | Inr d \<Rightarrow>
                  (Inr \<lparr>shape = Dot_out_shape_spec a b, dtype = real_dtype X a b od, elems = d,
                        requires_grad = (dot_targets st a b am bm \<noteq> [])\<rparr>,
                   st\<lparr>kernel_log := kernel_log st @ [(''DotKernel'', False)],
                      tape := tape st @ [OpNode ''dot'' (dot_targets st a b am bm)]\<rparr>))"
    using Dot_kernel_path [OF assms, of X od st] by blast
  show "Dot X a b od st =
             (case DotKernel X (a_matrix_of a) (b_matrix_of b)
                     (Empty [GetTotalSize a div contracted_a a, GetTotalSize b div contracted_a a]
                        (real_dtype X a b od)) of
                Inl msg \<Rightarrow>
                  (Inl (BackendError msg),
                   st\<lparr>kernel_log := kernel_log st @ [(''DotKernel'', False)]\<rparr>)
              | Inr d \<Rightarrow>
                  (Inr \<lparr>shape = Dot_out_shape_spec a b, dtype = real_dtype X a b od, elems = d,
                        requires_grad = (dot_targets st a b (a_matrix_of a) (b_matrix_of b) \<noteq> [])\<rparr>,
                   st\<lparr>kernel_log := kernel_log st @ [(''DotKernel'', False)],
                      tape := tape st @
                        [OpNode ''dot'' (dot_targets st a b (a_matrix_of a) (b_matrix_of b))]\<rparr>))"
    using D unfolding e .
  show "shape (b_matrix_of b) = [contracted_a a, GetTotalSize b div contracted_a a]"
    using sb unfolding e .
  show "requires_grad (b_matrix_of b) = requires_grad b"
    using gb unfolding e .
qed

lemma broadcast_shapes_scalar:
  "s = [] \<or> t = [] \<Longrightarrow> broadcast_shapes s t = Some (s @ t)"
proof (cases "s = []")
  case True
  then show ?thesis by (simp add: broadcast_shapes_def)
next
  case False
  assume "s = [] \<or> t = []"
  with False have t: "t = []" by simp
  have "broadcast_rev (rev s) [] = Some (rev s)" by (cases "rev s") auto
  then show ?thesis by (simp add: broadcast_shapes_def t)
qed

lemma Multiply_scalar:
  assumes "ndim a = 0 \<or> ndim b = 0"
  shows "\<exists>r. Multiply X a b = Inr r \<and> dtype r = ResultType X a b \<and> shape r = shape a @ shape b"
proof -
  have "shape a = [] \<or> shape b = []" using assms by (simp add: ndim_def)
  then have "broadcast_shapes (shape a) (shape b) = Some (shape a @ shape b)"
    by (rule broadcast_shapes_scalar)
  then show ?thesis by (simp add: Multiply_def BroadcastBinary_def)
qed

lemma Dot_result_dtype:
  assumes "0 < ndim a" "0 < ndim b" "fst (Dot X a b od st) = Inr r"
  shows "dtype r = real_dtype X a b od"
proof (cases "contracted_a a = contracted_b b")
  case False
  then show ?thesis using assms Dot_mismatch [OF assms(1,2), of X od st] by simp
next
  case eq: True
  show ?thesis
  proof (cases "contracted_a a = 0")
    case True
    then show ?thesis
      using assms(3) Dot_zero [OF assms(1,2) eq, of X od st] by (auto simp: Zeros_def)
  next
    case False
    obtain am bm where
      "Dot X a b od st =
             (case DotKernel X am bm
                     (Empty [GetTotalSize a div contracted_a a, GetTotalSize b div contracted_a a]
                        (real_dtype X a b od)) of
                Inl msg \<Rightarrow>
                  (Inl (BackendError msg),
                   st\<lparr>kernel_log := kernel_log st @ [(''DotKernel'', False)]\<rparr>)
              | Inr d \<Rightarrow>
                  (Inr \<lparr>shape = Dot_out_shape_spec a b, dtype = real_dtype X a b od, elems = d,
                        requires_grad = (dot_targets st a b am bm \<noteq> [])\<rparr>,
                   st\<lparr>kernel_log := kernel_log st @ [(''DotKernel'', False)],
                      tape := tape st @ [OpNode ''dot'' (dot_targets st a b am bm)]\<rparr>))"
      using Dot_kernel_path [OF assms(1,2) eq False, of X od st] by blast
    then show ?thesis using assms(3)
      by (cases "DotKernel X am bm
                     (Empty [GetTotalSize a div contracted_a a, GetTotalSize b div contracted_a a]
                        (real_dtype X a b od))") auto
  qed
qed

lemma Dot_outcome:
  assumes "0 < ndim a" "0 < ndim b"
  shows "(contracted_a a \<noteq> contracted_b b \<and>
            Dot X a b od st = (Inl (DimensionError ''Axis dimension mismatch''), st))
       \<or> (contracted_a a = contracted_b b \<and> contracted_a a = 0 \<and>
            Dot X a b od st = (Inr (Zeros (Dot_out_shape_spec a b) (real_dtype X a b od)), st))
       \<or> (contracted_a a = contracted_b b \<and> contracted_a a \<noteq> 0 \<and>
            (\<exists>msg. Dot X a b od st =
               (Inl (BackendError msg), st\<lparr>kernel_log := kernel_log st @ [(''DotKernel'', False)]\<rparr>)))
       \<or> (contracted_a a = contracted_b b \<and> contracted_a a \<noteq> 0 \<and>
            (\<exists>r ts. shape r = Dot_out_shape_spec a b \<and> dtype r = real_dtype X a b od \<and>
               Dot X a b od st =
               (Inr r, st\<lparr>kernel_log := kernel_log st @ [(''DotKernel'', False)],
                          tape := tape st @ [OpNode ''dot'' ts]\<rparr>)))"
proof (cases "contracted_a a = contracted_b b")
  case False
  then show ?thesis using Dot_mismatch [OF assms, of X od st] by simp
next
  case eq: True
  show ?thesis
  proof (cases "contracted_a a = 0")
    case True
    then show ?thesis
      using eq Dot_zero [OF assms eq, of X od st] by simp
  next
    case False
    obtain am bm where D:
      "Dot X a b od st =
             (case DotKernel X am bm
                     (Empty [GetTotalSize a div contracted_a a, GetTotalSize b div contracted_a a]
                        (real_dtype X a b od)) of
                Inl msg \<Rightarrow>
                  (Inl (BackendError msg),
                   st\<lparr>kernel_log := kernel_log st @ [(''DotKernel'', False)]\<rparr>)
              | Inr d \<Rightarrow>
                  (Inr \<lparr>shape = Dot_out_shape_spec a b, dtype = real_dtype X a b od, elems = d,
                        requires_grad = (dot_targets st a b am bm \<noteq> [])\<rparr>,
                   st\<lparr>kernel_log := kernel_log st @ [(''DotKernel'', False)],
                      tape := tape st @ [OpNode ''dot'' (dot_targets st a b am bm)]\<rparr>))"
      using Dot_kernel_path [OF assms eq False, of X od st] by blast
    show ?thesis
    proof (cases "DotKernel X am bm
                     (Empty [GetTotalSize a div contracted_a a, GetTotalSize b div contracted_a a]
                        (real_dtype X a b od))")
      case (Inl msg)
      then show ?thesis using D eq False by simp
    next
      case (Inr d)
      then have "\<exists>r ts. shape r = Dot_out_shape_spec a b \<and> dtype r = real_dtype X a b od \<and>
               Dot X a b od st =
               (Inr r, st\<lparr>kernel_log := kernel_log st @ [(''DotKernel'', False)],
                          tape := tape st @ [OpNode ''dot'' ts]\<rparr>)"
        using D
        by (intro exI [of _ "\<lparr>shape = Dot_out_shape_spec a b, dtype = real_dtype X a b od, elems = d,
                        requires_grad = (dot_targets st a b am bm \<noteq> [])\<rparr>"]
                  exI [of _ "dot_targets st a b am bm"]) simp
      then show ?thesis using eq False by blast
    qed
  qed
qed

lemma Eigh_valid:
  assumes "ndim a = 2" "shape a ! 0 = shape a ! 1"
  shows "Eigh X a uplo st =
     (case Syevd X a uplo of
        Inl msg \<Rightarrow>
          (Inl (BackendError msg), st\<lparr>kernel_log := kernel_log st @ [(''SyevdKernel'', False)]\<rparr>)
      | Inr (ws, vs) \<Rightarrow>
          (let n = shape a ! 0;
               w = \<lparr>shape = [n], dtype = dtype a, elems = ws, requires_grad = False\<rparr>;
               v = \<lparr>shape = [n, n], dtype = dtype a, elems = vs, requires_grad = False\<rparr>;
               ts = (if is_recording st \<and> requires_grad a
                     then [Target 0 [0] [0, 1] (EighGrad a w v)] else [])
           in (Inr (w\<lparr>requires_grad := (ts \<noteq> [])\<rparr>, v\<lparr>requires_grad := (ts \<noteq> [])\<rparr>),
               st\<lparr>kernel_log := kernel_log st @ [(''SyevdKernel'', False)],
                  tape := tape st @ [OpNode ''eigh'' ts]\<rparr>)))"
proof (cases "Syevd X a uplo")
  case (Inl msg)
  then show ?thesis using assms
    by (simp add: Eigh_def CallKernel_SyevdKernel_def SyevdKernel_def is_recording_enter
          NoBackpropModeScope_enter_def NoBackpropModeScope_exit_def is_recording_def)
next
  case (Inr p)
  obtain ws vs where p: "p = (ws, vs)" by (cases p)
  show ?thesis using assms
    by (simp add: Inr p Eigh_def CallKernel_SyevdKernel_def SyevdKernel_def is_recording_enter
          NoBackpropModeScope_enter_def NoBackpropModeScope_exit_def Let_def
          CreateTarget_def is_recording_def Finalize_def)
qed

lemma Eigvalsh_valid:
  assumes "ndim a = 2" "shape a ! 0 = shape a ! 1"
  shows "Eigvalsh X a uplo st =
     (case Syevd X a uplo of
        Inl msg \<Rightarrow>
          (Inl (BackendError msg), st\<lparr>kernel_log := kernel_log st @ [(''SyevdKernel'', False)]\<rparr>)
      | Inr (ws, vs) \<Rightarrow>
          (Inr \<lparr>shape = [shape a ! 0], dtype = dtype a, elems = ws, requires_grad = False\<rparr>,
           st\<lparr>kernel_log := kernel_log st @ [(''SyevdKernel'', False)]\<rparr>))"
proof (cases "Syevd X a uplo")
  case (Inl msg)
  then show ?thesis using assms
    by (simp add: Eigvalsh_def CallKernel_SyevdKernel_def SyevdKernel_def is_recording_enter
          NoBackpropModeScope_enter_def NoBackpropModeScope_exit_def is_recording_def)
next
  case (Inr p)
  obtain ws vs where p: "p = (ws, vs)" by (cases p)
  show ?thesis using assms
    by (simp add: Inr p Eigvalsh_def CallKernel_SyevdKernel_def SyevdKernel_def is_recording_enter
          NoBackpropModeScope_enter_def NoBackpropModeScope_exit_def Let_def is_recording_def)
qed

lemma Eigh_invalid:
  "ndim a \<noteq> 2 \<or> shape a ! 0 \<noteq> shape a ! 1 \<Longrightarrow>
   \<exists>msg. Eigh X a uplo st = (Inl (DimensionError msg), st)"
  by (auto simp: Eigh_def)

lemma Eigvalsh_invalid:
  "ndim a \<noteq> 2 \<or> shape a ! 0 \<noteq> shape a ! 1 \<Longrightarrow>
   \<exists>msg. Eigvalsh X a uplo st = (Inl (DimensionError msg), st)"
  by (auto simp: Eigvalsh_def)

lemma Eigh_example:
  "Eigh ref_externs (mk_array [2, 2] [1, 0, 0, 3] True) ''L'' init_engine
   = (Inr (\<lparr>shape = [2], dtype = kFloat32, elems = [Fin 1, Fin 3], requires_grad = True\<rparr>,
           \<lparr>shape = [2, 2], dtype = kFloat32, elems = [Fin 1, Fin 0, Fin 0, Fin 1],
            requires_grad = True\<rparr>),
      \<lparr>mode_stack = [], kernel_log = [(''SyevdKernel'', False)],
        tape = [OpNode ''eigh''
                 [Target 0 [0] [0, 1]
                   (EighGrad (mk_array [2, 2] [1, 0, 0, 3] True)
                      \<lparr>shape = [2], dtype = kFloat32, elems = [Fin 1, Fin 3], requires_grad = False\<rparr>
                      \<lparr>shape = [2, 2], dtype = kFloat32, elems = [Fin 1, Fin 0, Fin 0, Fin 1],
                       requires_grad = False\<rparr>)]]\<rparr>)"
  by code_simp

lemma Dot_engine_effect:
  "mode_stack (snd (Dot X a b od st)) = mode_stack st
   \<and> (kernel_log (snd (Dot X a b od st)) = kernel_log st
      \<or> kernel_log (snd (Dot X a b od st)) = kernel_log st @ [(''DotKernel'', False)])
   \<and> (0 < ndim a \<and> 0 < ndim b \<and> contracted_a a = contracted_b b \<and> contracted_a a \<noteq> 0
        \<longrightarrow> kernel_log (snd (Dot X a b od st)) = kernel_log st @ [(''DotKernel'', False)])"
proof (cases "ndim a = 0 \<or> ndim b = 0")
  case True
  then have "snd (Dot X a b od st) = st" by (simp add: Dot_def)
  then show ?thesis using True by auto
next
  case False
  then have r: "0 < ndim a" "0 < ndim b" by simp_all
  show ?thesis using Dot_outcome [OF r, of X od st] by auto
qed

lemma Eigh_engine_effect:
  "mode_stack (snd (Eigh X c uplo st)) = mode_stack st
   \<and> (kernel_log (snd (Eigh X c uplo st)) = kernel_log st
      \<or> kernel_log (snd (Eigh X c uplo st)) = kernel_log st @ [(''SyevdKernel'', False)])
   \<and> (ndim c = 2 \<and> shape c ! 0 = shape c ! 1
        \<longrightarrow> kernel_log (snd (Eigh X c uplo st)) = kernel_log st @ [(''SyevdKernel'', False)])"
proof (cases "ndim c \<noteq> 2 \<or> shape c ! 0 \<noteq> shape c ! 1")
  case True
  then show ?thesis using Eigh_invalid [OF True, of X uplo st] by auto
next
  case False
  then have v: "ndim c = 2" "shape c ! 0 = shape c ! 1" by simp_all
  show ?thesis unfolding Eigh_valid [OF v]
    by (cases "Syevd X c uplo") (simp_all add: Let_def split_beta)
qed

lemma Eigvalsh_engine_effect:
  "mode_stack (snd (Eigvalsh X c uplo st)) = mode_stack st
   \<and> (kernel_log (snd (Eigvalsh X c uplo st)) = kernel_log st
      \<or> kernel_log (snd (Eigvalsh X c uplo st)) = kernel_log st @ [(''SyevdKernel'', False)])
   \<and> (ndim c = 2 \<and> shape c ! 0 = shape c ! 1
        \<longrightarrow> kernel_log (snd (Eigvalsh X c uplo st)) = kernel_log st @ [(''SyevdKernel'', False)])"
proof (cases "ndim c \<noteq> 2 \<or> shape c ! 0 \<noteq> shape c ! 1")
  case True
  then show ?thesis using Eigvalsh_invalid [OF True, of X uplo st] by auto
next
  case False
  then have v: "ndim c = 2" "shape c ! 0 = shape c ! 1" by simp_all
  show ?thesis unfolding Eigvalsh_valid [OF v]
    by (cases "Syevd X c uplo") (simp_all add: Let_def split_beta)
qed

text \<open>The concrete scenario of the specification, evaluated with the reference kernel:
  the product of two \<open>2 \<times> 2\<close> matrices, the rule it registers and the two gradients
  for an output gradient of ones.\<close>

lemma Dot_example_2d:
  "Dot ref_externs (mk_array [2, 2] [1, 2, 3, 4] True) (mk_array [2, 2] [5, 6, 7, 8] True) None
     init_engine
   = (Inr \<lparr>shape = [2, 2], dtype = kFloat32, elems = [Fin 19, Fin 22, Fin 43, Fin 50],
           requires_grad = True\<rparr>,
      \<lparr>mode_stack = [], kernel_log = [(''DotKernel'', False)],
        tape = [OpNode ''dot''
                 [Target 0 [1] [] (DotGradA (mk_array [2, 2] [5, 6, 7, 8] True) kFloat32),
                  Target 1 [0] [] (DotGradB (mk_array [2, 2] [1, 2, 3, 4] True) kFloat32)]]\<rparr>)"
  by code_simp

lemma Dot_gradient_example:
  "fst (invoke ref_externs (DotGradA (mk_array [2, 2] [5, 6, 7, 8] True) kFloat32)
          [Some (mk_array [2, 2] [1, 1, 1, 1] False)] init_engine)
     = Inr \<lparr>shape = [2, 2], dtype = kFloat32, elems = [Fin 11, Fin 15, Fin 11, Fin 15],
            requires_grad = True\<rparr>
   \<and> fst (invoke ref_externs (DotGradB (mk_array [2, 2] [1, 2, 3, 4] True) kFloat32)
          [Some (mk_array [2, 2] [1, 1, 1, 1] False)] init_engine)
     = Inr \<lparr>shape = [2, 2], dtype = kFloat32, elems = [Fin 4, Fin 4, Fin 6, Fin 6],
            requires_grad = True\<rparr>"
  by code_simp

section \<open>The difference matrix of the eigenvalues\<close>

lemma nth_concat_uniform:
  "(\<forall>ys \<in> set xss. length ys = m) \<Longrightarrow> i < length xss \<Longrightarrow> r < m \<Longrightarrow>
   concat xss ! (i * m + r) = xss ! i ! r"
proof (induction xss arbitrary: i)
  case Nil
  then show ?case by simp
next
  case (Cons ys xss)
  show ?case
  proof (cases i)
    case 0
    then show ?thesis using Cons.prems by (simp add: nth_append)
  next
    case (Suc i')
    have "Suc i' * m + r = length ys + (i' * m + r)" using Cons.prems(1) by simp
    then have "concat (ys # xss) ! (i * m + r) = concat xss ! (i' * m + r)"
      using Suc by (simp add: nth_append)
    also have "\<dots> = xss ! i' ! r"
      using Cons.prems Suc by (intro Cons.IH) auto
    finally show ?thesis using Suc by simp
  qed
qed

lemma length_concat_uniform:
  "(\<forall>ys \<in> set xss. length ys = m) \<Longrightarrow> length (concat xss) = length xss * m"
  by (induction xss) auto

lemma length_indices: "length (indices s) = prod_list s"
proof (induction s)
  case Nil
  then show ?case by simp
next
  case (Cons d ds)
  have "length (concat (map (\<lambda>i. map ((#) i) (indices ds)) [0..<d]))
        = length (map (\<lambda>i. map ((#) i) (indices ds)) [0..<d]) * prod_list ds"
    by (rule length_concat_uniform) (auto simp: Cons.IH)
  then show ?case by simp
qed

lemma ravel_indices:
  "idx \<in> set (indices s) \<Longrightarrow> ravel s idx < prod_list s \<and> indices s ! ravel s idx = idx"
proof (induction s arbitrary: idx)
  case Nil
  then show ?case by simp
next
  case (Cons d ds)
  from Cons.prems obtain i js where idx: "idx = i # js" and i: "i < d" and js: "js \<in> set (indices ds)"
    by auto
  let ?P = "prod_list ds"
  let ?xss = "map (\<lambda>i. map ((#) i) (indices ds)) [0..<d]"
  have r: "ravel ds js < ?P" and n: "indices ds ! ravel ds js = js"
    using Cons.IH [OF js] by simp_all
  have "i * ?P + ravel ds js < Suc i * ?P" using r by simp
  also have "\<dots> \<le> d * ?P" using i by (intro mult_le_mono1) simp
  finally have bound: "i * ?P + ravel ds js < d * ?P" .
  have u: "\<forall>ys \<in> set ?xss. length ys = ?P" by (auto simp: length_indices)
  have "concat ?xss ! (i * ?P + ravel ds js) = ?xss ! i ! ravel ds js"
    using u i r by (intro nth_concat_uniform) simp_all
  also have "\<dots> = i # js" using i r n by (simp add: length_indices)
  finally show ?case using bound by (simp add: idx)
qed

lemma item_map_indices:
  assumes "elems x = map f (indices (shape x))" "idx \<in> set (indices (shape x))"
  shows "item x idx = f idx"
  using ravel_indices [OF assms(2)] assms(1)
  by (simp add: item_def Let_def length_indices)

lemma indices_matrix: "set (indices [n, m]) = {[i, j] | i j. i < n \<and> j < m}"
  by auto

lemma broadcast_row_column: "broadcast_shapes [1, n] [n, 1] = Some [n, n]"
  by (simp add: broadcast_shapes_def)

lemma broadcast_same_matrix: "broadcast_shapes [n, m] [n, m] = Some [n, m]"
  by (simp add: broadcast_shapes_def)

lemma bcast_item_row:
  assumes "shape w = [n]" "i < n" "j < n"
  shows "bcast_item (ExpandDims w 0) [i, j] = item w [j]"
  using assms by (auto simp: bcast_item_def bcast_index_def ExpandDims_def item_def Let_def)

lemma bcast_item_column:
  assumes "shape w = [n]" "i < n" "j < n"
  shows "bcast_item (ExpandDims w 1) [i, j] = item w [i]"
  using assms by (auto simp: bcast_item_def bcast_index_def ExpandDims_def item_def Let_def)

lemma bcast_item_matrix:
  assumes "shape x = [n, n]" "elems x = map f (indices [n, n])" "i < n" "j < n"
  shows "bcast_item x [i, j] = f [i, j]"
proof -
  have "bcast_index (shape x) [i, j] = [i, j]"
    using assms by (auto simp: bcast_index_def)
  moreover have "[i, j] \<in> set (indices (shape x))"
    using assms by (simp only: assms(1) indices_matrix) blast
  ultimately show ?thesis
    using item_map_indices [of x f "[i, j]"] assms by (simp add: bcast_item_def)
qed

lemma map_indices_matrix_cong:
  "(\<And>i j. i < n \<Longrightarrow> j < n \<Longrightarrow> f [i, j] = g [i, j]) \<Longrightarrow>
   map f (indices [n, n]) = map g (indices [n, n])"
  by (rule map_cong [OF refl]) (auto simp only: indices_matrix)

lemma Subtract_row_column:
  assumes "shape w = [n]"
  shows "Subtract X (ExpandDims w 0) (ExpandDims w 1) = Inr (F_difference X w)"
proof -
  have s0: "shape (ExpandDims w 0) = [1, n]" and s1: "shape (ExpandDims w 1) = [n, 1]"
    using assms by (simp_all add: ExpandDims_def)
  have g: "requires_grad (ExpandDims w 0) = requires_grad w"
      "requires_grad (ExpandDims w 1) = requires_grad w"
    by (simp_all add: ExpandDims_def)
  have "map (\<lambda>idx. e_sub (bcast_item (ExpandDims w 0) idx) (bcast_item (ExpandDims w 1) idx))
            (indices [n, n])
        = map (\<lambda>idx. e_sub (item w [idx ! 1]) (item w [idx ! 0])) (indices [n, n])"
    by (rule map_indices_matrix_cong)
       (simp only: bcast_item_row [OF assms] bcast_item_column [OF assms], simp)
  then show ?thesis
    unfolding Subtract_def BroadcastBinary_def s0 s1 g broadcast_row_column
      F_difference_def Let_def assms
    by (simp del: indices.simps)
qed

lemma shape_F_difference: "shape w = [n] \<Longrightarrow> shape (F_difference X w) = [n, n]"
  by (simp add: F_difference_def Let_def)

lemma Where_diagonal:
  assumes "shape w = [n]"
  shows "Where_scalar (Eye n n 0 kBool) PInf (F_difference X w) = Inr (F_masked X w)"
proof -
  let ?mask = "Eye n n 0 kBool"
  let ?F = "F_difference X w"
  have sm: "shape ?mask = [n, n]" by (simp add: Eye_def)
  have sf: "shape ?F = [n, n]" by (rule shape_F_difference [OF assms])
  have em: "elems ?mask = map (\<lambda>idx. if idx ! 1 = idx ! 0 + 0 then Fin 1 else Fin 0) (indices [n, n])"
    unfolding Eye_def by (simp del: indices.simps)
  have ef: "elems ?F = map (\<lambda>idx. e_sub (item w [idx ! 1]) (item w [idx ! 0])) (indices [n, n])"
    unfolding F_difference_def Let_def assms by (simp del: indices.simps)
  have "map (\<lambda>idx. if bcast_item ?mask idx = Fin 0 then bcast_item ?F idx else PInf) (indices [n, n])
        = map (\<lambda>idx. if idx ! 0 = idx ! 1 then PInf
                      else e_sub (item w [idx ! 1]) (item w [idx ! 0])) (indices [n, n])"
    by (rule map_indices_matrix_cong)
       (auto simp: bcast_item_matrix [OF sm em] bcast_item_matrix [OF sf ef])
  moreover have "dtype ?F = ResultType X (ExpandDims w 0) (ExpandDims w 1)"
    and "requires_grad ?F = requires_grad w" and "\<not> requires_grad ?mask"
    by (simp_all add: F_difference_def Let_def Eye_def del: indices.simps)
  ultimately show ?thesis
    unfolding Where_scalar_def BroadcastBinary_def sm sf broadcast_same_matrix
      F_masked_def Let_def assms
    by (simp del: indices.simps)
qed

lemma Reciprocal_masked: "Reciprocal (F_masked X w) = F_spec X w"
  by (simp add: Reciprocal_def F_masked_def F_spec_def Let_def if_distrib [of e_recip]
        del: indices.simps cong: if_cong)


lemma EighBackward_formula:
  assumes "shape w = [n]"
  shows "EighBackward X a w v grad_w grad_v st
         = Eigh_grad_formula X w v (grad_or_zeros (shape w) (dtype a) grad_w)
             (grad_or_zeros (shape v) (dtype a) grad_v) st"
proof -
  have s0: "shape (F_difference X w) ! 0 = n" and s1: "shape (F_difference X w) ! 1 = n"
    using shape_F_difference [OF assms, of X] by simp_all
  show ?thesis
    unfolding EighBackward_def Eigh_grad_formula_def grad_or_zeros_def Let_def
      Subtract_row_column [OF assms] sum.case s0 s1
      Where_diagonal [OF assms] Reciprocal_masked
    by (rule refl)
qed

lemma Eigh_gradient_example:
  "fst (invoke ref_externs
          (EighGrad (mk_array [2, 2] [1, 0, 0, 3] True) (mk_array [2] [1, 3] False)
             (mk_array [2, 2] [1, 0, 0, 1] False))
          [None, Some (mk_array [2, 2] [1, 2, 3, 4] False)] init_engine)
     = Inr \<lparr>shape = [2, 2], dtype = kFloat32,
            elems = [Fin 0, Fin 1, Fin (- (3 / 2)), Fin 0], requires_grad = False\<rparr>
   \<and> fst (invoke ref_externs
          (EighGrad (mk_array [2, 2] [1, 0, 0, 3] True) (mk_array [2] [1, 3] False)
             (mk_array [2, 2] [1, 0, 0, 1] False))
          [Some (mk_array [2] [5, 7] False), None] init_engine)
     = Inr \<lparr>shape = [2, 2], dtype = kFloat32,
            elems = [Fin 5, Fin 0, Fin 0, Fin 7], requires_grad = False\<rparr>"
  by code_simp

section \<open>The matrices handed to the kernel and the closure of Eigh\<close>

lemma a_matrix_of_props:
  "shape (a_matrix_of a) = [GetTotalSize a div contracted_a a, contracted_a a]"
  "elems (a_matrix_of a) = elems a"
  "requires_grad (a_matrix_of a) = requires_grad a"
  by (simp_all add: a_matrix_of_def)

lemma b_matrix_of_low: "ndim b \<le> 2 \<Longrightarrow> elems (b_matrix_of b) = elems b"
  by (simp add: b_matrix_of_def Let_def)

lemma Eigh_success:
  assumes "fst (Eigh X a uplo st) = Inr (w, v)" "is_recording st" "requires_grad a"
  shows "tape (snd (Eigh X a uplo st))
           = tape st @ [OpNode ''eigh'' [Target 0 [0] [0, 1] (EighGrad a (detached w) (detached v))]]"
    and "shape w = [shape a ! 0]"
    and "shape v = [shape a ! 0, shape a ! 0]"
proof -
  have valid: "\<not> (ndim a \<noteq> 2 \<or> shape a ! 0 \<noteq> shape a ! 1)"
  proof
    assume "ndim a \<noteq> 2 \<or> shape a ! 0 \<noteq> shape a ! 1"
    then obtain msg where "Eigh X a uplo st = (Inl (DimensionError msg), st)"
      using Eigh_invalid by blast
    then show False using assms(1) by simp
  qed
  then have v2: "ndim a = 2" "shape a ! 0 = shape a ! 1" by simp_all
  note E = Eigh_valid [OF v2, of X uplo st]
  show "tape (snd (Eigh X a uplo st))
           = tape st @ [OpNode ''eigh'' [Target 0 [0] [0, 1] (EighGrad a (detached w) (detached v))]]"
    and "shape w = [shape a ! 0]"
    and "shape v = [shape a ! 0, shape a ! 0]"
  proof (atomize (full), cases "Syevd X a uplo")
    case (Inl msg)
    then show "tape (snd (Eigh X a uplo st))
           = tape st @ [OpNode ''eigh'' [Target 0 [0] [0, 1] (EighGrad a (detached w) (detached v))]]
        \<and> shape w = [shape a ! 0] \<and> shape v = [shape a ! 0, shape a ! 0]"
      using assms(1) unfolding E by simp
  next
    case (Inr p)
    obtain ws vs where p: "p = (ws, vs)" by (cases p)
    show "tape (snd (Eigh X a uplo st))
           = tape st @ [OpNode ''eigh'' [Target 0 [0] [0, 1] (EighGrad a (detached w) (detached v))]]
        \<and> shape w = [shape a ! 0] \<and> shape v = [shape a ! 0, shape a ! 0]"
      using assms unfolding E Inr p by (auto simp: Let_def detached_def)
  qed
qed

text \<open>Evaluations with the reference collaborators: the kernel call behind the product of a
  \<open>2 \<times> 3\<close> matrix with a stack of two \<open>3 \<times> 2\<close> matrices, the matrices and the
  kernel result of the \<open>2 \<times> 2\<close> scenario, and the gradient formula of \<open>Eigh\<close> for
  the eigenvalues \<open>1, 3\<close> with unit eigenvectors.\<close>

lemma Dot_kernel_example_3d:
  "(case DotKernel ref_externs (a_matrix_of (mk_array [2, 3] [1, 2, 3, 4, 5, 6] False))
           (b_matrix_of (mk_array [2, 3, 2] [1, 0, 0, 1, 0, 0, 0, 0, 1, 0, 0, 1] False))
           (Empty [GetTotalSize (mk_array [2, 3] [1, 2, 3, 4, 5, 6] False)
                     div contracted_a (mk_array [2, 3] [1, 2, 3, 4, 5, 6] False),
                   GetTotalSize (mk_array [2, 3, 2] [1, 0, 0, 1, 0, 0, 0, 0, 1, 0, 0, 1] False)
                     div contracted_a (mk_array [2, 3] [1, 2, 3, 4, 5, 6] False)]
              (real_dtype ref_externs (mk_array [2, 3] [1, 2, 3, 4, 5, 6] False)
                 (mk_array [2, 3, 2] [1, 0, 0, 1, 0, 0, 0, 0, 1, 0, 0, 1] False) None)) of
      Inl msg \<Rightarrow> Inl (BackendError msg)
    | Inr d \<Rightarrow>
        Inr \<lparr>shape = Dot_out_shape_spec (mk_array [2, 3] [1, 2, 3, 4, 5, 6] False)
                       (mk_array [2, 3, 2] [1, 0, 0, 1, 0, 0, 0, 0, 1, 0, 0, 1] False),
             dtype = real_dtype ref_externs (mk_array [2, 3] [1, 2, 3, 4, 5, 6] False)
                       (mk_array [2, 3, 2] [1, 0, 0, 1, 0, 0, 0, 0, 1, 0, 0, 1] False) None,
             elems = d,
             requires_grad =
               (dot_targets init_engine (mk_array [2, 3] [1, 2, 3, 4, 5, 6] False)
                  (mk_array [2, 3, 2] [1, 0, 0, 1, 0, 0, 0, 0, 1, 0, 0, 1] False)
                  (a_matrix_of (mk_array [2, 3] [1, 2, 3, 4, 5, 6] False))
                  (b_matrix_of (mk_array [2, 3, 2] [1, 0, 0, 1, 0, 0, 0, 0, 1, 0, 0, 1] False))
                \<noteq> [])\<rparr>)
   = Inr \<lparr>shape = [2, 2, 2], dtype = kFloat32,
          elems = [Fin 1, Fin 2, Fin 2, Fin 3, Fin 4, Fin 5, Fin 5, Fin 6], requires_grad = False\<rparr>"
  by code_simp

lemma Dot_matrices_example:
  "a_matrix_of (mk_array [2, 2] [1, 2, 3, 4] True) = mk_array [2, 2] [1, 2, 3, 4] True"
  "b_matrix_of (mk_array [2, 2] [5, 6, 7, 8] True) = mk_array [2, 2] [5, 6, 7, 8] True"
  "DotKernel ref_externs (a_matrix_of (mk_array [2, 2] [1, 2, 3, 4] True))
     (b_matrix_of (mk_array [2, 2] [5, 6, 7, 8] True))
     (Empty [GetTotalSize (mk_array [2, 2] [1, 2, 3, 4] True)
               div contracted_a (mk_array [2, 2] [1, 2, 3, 4] True),
             GetTotalSize (mk_array [2, 2] [5, 6, 7, 8] True)
               div contracted_a (mk_array [2, 2] [1, 2, 3, 4] True)]
        (real_dtype ref_externs (mk_array [2, 2] [1, 2, 3, 4] True)
           (mk_array [2, 2] [5, 6, 7, 8] True) None))
   = Inr [Fin 19, Fin 22, Fin 43, Fin 50]"
  by code_simp+

lemma Eigh_formula_example:
  "F_spec ref_externs (mk_array [2] [1, 3] False)
     = \<lparr>shape = [2, 2], dtype = kFloat32,
        elems = [Fin 0, Fin (1 / 2), Fin (- (1 / 2)), Fin 0], requires_grad = False\<rparr>"
  "fst (Eigh_grad_formula ref_externs (mk_array [2] [1, 3] False) (mk_array [2, 2] [1, 0, 0, 1] False)
          (mk_array [2] [5, 7] False) (mk_array [2, 2] [1, 2, 3, 4] False) init_engine)
     = Inr \<lparr>shape = [2, 2], dtype = kFloat32,
            elems = [Fin 5, Fin 1, Fin (- (3 / 2)), Fin 7], requires_grad = False\<rparr>"
  "fst (Eigh_grad_formula ref_externs (mk_array [2] [1, 3] False) (mk_array [2, 2] [1, 0, 0, 1] False)
          (mk_array [2] [5, 7] False) (Zeros [2, 2] kFloat32) init_engine)
     = Inr \<lparr>shape = [2, 2], dtype = kFloat32,
            elems = [Fin 5, Fin 0, Fin 0, Fin 7], requires_grad = False\<rparr>"
  "fst (Eigh_grad_formula ref_externs (mk_array [2] [1, 3] False) (mk_array [2, 2] [1, 0, 0, 1] False)
          (Zeros [2] kFloat32) (mk_array [2, 2] [1, 2, 3, 4] False) init_engine)
     = Inr \<lparr>shape = [2, 2], dtype = kFloat32,
            elems = [Fin 0, Fin 1, Fin (- (3 / 2)), Fin 0], requires_grad = False\<rparr>"
  by code_simp+

lemma Eigh_forward_example:
  "fst (Eigh ref_externs (mk_array [2, 2] [1, 0, 0, 3] True) ''L'' init_engine)
     = Inr (mk_array [2] [1, 3] True, mk_array [2, 2] [1, 0, 0, 1] True)"
  "detached (mk_array [2] [1, 3] True) = mk_array [2] [1, 3] False"
  "detached (mk_array [2, 2] [1, 0, 0, 1] True) = mk_array [2, 2] [1, 0, 0, 1] False"
  by code_simp+

section \<open>Verified properties\<close>

text \<open>
  Claim C6.  When either operand has rank 0, \<open>Dot\<close> is the elementwise product of
  its operands and returns at once: the engine state is returned unchanged, so no kernel
  is dispatched and \<open>Dot\<close> registers no gradient rule of its own.
\<close>

theorem Dot_scalar_is_multiply:
  "ndim a = 0 \<or> ndim b = 0 \<Longrightarrow> Dot X a b out_dtype st = (Multiply X a b, st)"
  by (simp add: Dot_def)

theorem Dot_scalar_is_multiply_witness:
  "(ndim (mk_array [] [2] True) = 0 \<or> ndim (mk_array [3] [1, 2, 3] True) = 0)
   \<and> Dot ref_externs (mk_array [] [2] True) (mk_array [3] [1, 2, 3] True) None init_engine
       = (Multiply ref_externs (mk_array [] [2] True) (mk_array [3] [1, 2, 3] True), init_engine)"
proof -
  have h: "ndim (mk_array [] [2] True) = 0 \<or> ndim (mk_array [3] [1, 2, 3] True) = 0"
    by (simp add: ndim_def mk_array_def)
  show ?thesis
    using h Dot_scalar_is_multiply [OF h] by simp
qed

text \<open>
  Claim C2.  For operands of rank at least one, \<open>Dot\<close> contracts the last axis of
  \<open>a\<close> with the first axis of \<open>b\<close> (rank of \<open>b\<close> at most two) or with its
  second-to-last axis (rank above two).  When the two sizes agree the result has the shape
  of \<open>a\<close> without its last axis followed by the shape of \<open>b\<close> without the
  contracted axis: for a zero contraction it is the zero tensor of that shape, and
  otherwise it is exactly what the kernel delivers for the two reduced matrices, given
  that shape, and the call fails only when the kernel does.  When the sizes differ the
  call is rejected.  For rank above two the remaining axes of \<open>b\<close> keep their order
  and its last axis stays last.
\<close>

theorem Dot_output_shape:
  assumes "0 < ndim a" "0 < ndim b"
  shows "(contracted_a a = contracted_b b \<and> contracted_a a = 0 \<longrightarrow>
            fst (Dot X a b od st) = Inr (Zeros (Dot_out_shape_spec a b) (real_dtype X a b od)))
       \<and> (contracted_a a = contracted_b b \<and> contracted_a a \<noteq> 0 \<longrightarrow>
            fst (Dot X a b od st)
              = (case DotKernel X (a_matrix_of a) (b_matrix_of b)
                        (Empty [GetTotalSize a div contracted_a a, GetTotalSize b div contracted_a a]
                           (real_dtype X a b od)) of
                   Inl msg \<Rightarrow> Inl (BackendError msg)
                 | Inr d \<Rightarrow>
                     Inr \<lparr>shape = Dot_out_shape_spec a b, dtype = real_dtype X a b od, elems = d,
                          requires_grad =
                            (dot_targets st a b (a_matrix_of a) (b_matrix_of b) \<noteq> [])\<rparr>))
       \<and> (contracted_a a \<noteq> contracted_b b \<longrightarrow>
            fst (Dot X a b od st) = Inl (DimensionError ''Axis dimension mismatch''))
       \<and> (ndim b \<le> 2 \<longrightarrow> Dot_out_shape_spec a b = butlast (shape a) @ tl (shape b))
       \<and> (2 < ndim b \<longrightarrow>
            Dot_out_shape_spec a b
              = butlast (shape a) @ take (ndim b - 2) (shape b) @ [last (shape b)])"
proof (intro conjI impI)
  assume "contracted_a a = contracted_b b \<and> contracted_a a = 0"
  then show "fst (Dot X a b od st) = Inr (Zeros (Dot_out_shape_spec a b) (real_dtype X a b od))"
    using Dot_zero [OF assms, of X od st] by simp
next
  assume h: "contracted_a a = contracted_b b \<and> contracted_a a \<noteq> 0"
  then have e: "contracted_a a = contracted_b b" and nz: "contracted_a a \<noteq> 0" by simp_all
  show "fst (Dot X a b od st)
              = (case DotKernel X (a_matrix_of a) (b_matrix_of b)
                        (Empty [GetTotalSize a div contracted_a a, GetTotalSize b div contracted_a a]
                           (real_dtype X a b od)) of
                   Inl msg \<Rightarrow> Inl (BackendError msg)
                 | Inr d \<Rightarrow>
                     Inr \<lparr>shape = Dot_out_shape_spec a b, dtype = real_dtype X a b od, elems = d,
                          requires_grad =
                            (dot_targets st a b (a_matrix_of a) (b_matrix_of b) \<noteq> [])\<rparr>)"
    unfolding Dot_kernel_explicit(1) [OF assms e nz]
    by (cases "DotKernel X (a_matrix_of a) (b_matrix_of b)
                        (Empty [GetTotalSize a div contracted_a a, GetTotalSize b div contracted_a a]
                           (real_dtype X a b od))") simp_all
next
  assume "contracted_a a \<noteq> contracted_b b"
  then show "fst (Dot X a b od st) = Inl (DimensionError ''Axis dimension mismatch'')"
    using Dot_mismatch [OF assms, of X od st] by simp
next
  assume "ndim b \<le> 2"
  then show "Dot_out_shape_spec a b = butlast (shape a) @ tl (shape b)"
    using assms(1) by (rule Dot_out_shape_low [rotated])
next
  assume hi: "2 < ndim b"
  have "shape b \<noteq> []" using hi by (auto simp: ndim_def)
  then have "last (shape b) = shape b ! (length (shape b) - 1)" by (rule last_conv_nth)
  moreover have "2 < length (shape b)" using hi by (simp add: ndim_def)
  ultimately show "Dot_out_shape_spec a b
        = butlast (shape a) @ take (ndim b - 2) (shape b) @ [last (shape b)]"
    using Dot_out_shape_high [OF assms(1) hi] drop_axis_second_last [of "shape b"]
    by (simp add: ndim_def)
qed

theorem Dot_output_shape_witness:
  "0 < ndim (mk_array [2, 3] [1, 2, 3, 4, 5, 6] False)
   \<and> 0 < ndim (mk_array [2, 3, 2] [1, 0, 0, 1, 0, 0, 0, 0, 1, 0, 0, 1] False)
   \<and> contracted_a (mk_array [2, 3] [1, 2, 3, 4, 5, 6] False)
       = contracted_b (mk_array [2, 3, 2] [1, 0, 0, 1, 0, 0, 0, 0, 1, 0, 0, 1] False)
   \<and> contracted_a (mk_array [2, 3] [1, 2, 3, 4, 5, 6] False) \<noteq> 0
   \<and> fst (Dot ref_externs (mk_array [2, 3] [1, 2, 3, 4, 5, 6] False)
                  (mk_array [2, 3, 2] [1, 0, 0, 1, 0, 0, 0, 0, 1, 0, 0, 1] False) None init_engine)
       = Inr \<lparr>shape = [2, 2, 2], dtype = kFloat32,
              elems = [Fin 1, Fin 2, Fin 2, Fin 3, Fin 4, Fin 5, Fin 5, Fin 6],
              requires_grad = False\<rparr>"
proof -
  let ?A = "mk_array [2, 3] [1, 2, 3, 4, 5, 6] False"
  let ?B = "mk_array [2, 3, 2] [1, 0, 0, 1, 0, 0, 0, 0, 1, 0, 0, 1] False"
  have h1: "0 < ndim ?A" by (simp add: ndim_def mk_array_def)
  have h2: "0 < ndim ?B" by (simp add: ndim_def mk_array_def)
  have h3: "contracted_a ?A = contracted_b ?B \<and> contracted_a ?A \<noteq> 0"
    by (simp add: contracted_a_def contracted_b_def ndim_def mk_array_def)
  note T = Dot_output_shape [OF h1 h2, of ref_externs None init_engine,
             THEN conjunct2, THEN conjunct1, rule_format, OF h3]
  show ?thesis
    using h1 h2 h3 T [unfolded Dot_kernel_example_3d] by blast
qed

text \<open>The product of a \<open>2 \<times> 3\<close> matrix with a stack of two \<open>3 \<times> 2\<close> matrices,
  evaluated with the reference kernel.\<close>

lemma Dot_example_3d:
  "fst (Dot ref_externs (mk_array [2, 3] [1, 2, 3, 4, 5, 6] False)
          (mk_array [2, 3, 2] [1, 0, 0, 1, 0, 0, 0, 0, 1, 0, 0, 1] False) None init_engine)
   = Inr \<lparr>shape = [2, 2, 2], dtype = kFloat32,
          elems = [Fin 1, Fin 2, Fin 2, Fin 3, Fin 4, Fin 5, Fin 5, Fin 6], requires_grad = False\<rparr>"
  by code_simp

text \<open>
  Claim C4.  When the contracted sizes agree and are zero, \<open>Dot\<close> returns the
  zero-filled tensor of the output shape and of the result dtype, and the engine state is
  unchanged: no kernel is dispatched and no gradient rule is registered.
\<close>

theorem Dot_zero_contraction:
  assumes "0 < ndim a" "0 < ndim b" "contracted_a a = contracted_b b" "contracted_a a = 0"
  shows "Dot X a b od st = (Inr (Zeros (Dot_out_shape_spec a b) (real_dtype X a b od)), st)
       \<and> kernel_log (snd (Dot X a b od st)) = kernel_log st
       \<and> tape (snd (Dot X a b od st)) = tape st"
  using Dot_zero [OF assms, of X od st] by simp

theorem Dot_zero_contraction_witness:
  "0 < ndim (mk_array [2, 0] [] True) \<and> 0 < ndim (mk_array [0, 3] [] True)
   \<and> contracted_a (mk_array [2, 0] [] True) = contracted_b (mk_array [0, 3] [] True)
   \<and> contracted_a (mk_array [2, 0] [] True) = 0
   \<and> Dot ref_externs (mk_array [2, 0] [] True) (mk_array [0, 3] [] True) (Some kFloat64) init_engine
       = (Inr \<lparr>shape = [2, 3], dtype = kFloat64,
               elems = [Fin 0, Fin 0, Fin 0, Fin 0, Fin 0, Fin 0], requires_grad = False\<rparr>,
          init_engine)"
proof -
  let ?A = "mk_array [2, 0] [] True"
  let ?B = "mk_array [0, 3] [] True"
  have h1: "0 < ndim ?A" by (simp add: ndim_def mk_array_def)
  have h2: "0 < ndim ?B" by (simp add: ndim_def mk_array_def)
  have h3: "contracted_a ?A = contracted_b ?B"
    by (simp add: contracted_a_def contracted_b_def ndim_def mk_array_def)
  have h4: "contracted_a ?A = 0" by (simp add: contracted_a_def mk_array_def)
  have e: "Zeros (Dot_out_shape_spec ?A ?B) (real_dtype ref_externs ?A ?B (Some kFloat64))
           = \<lparr>shape = [2, 3], dtype = kFloat64,
               elems = [Fin 0, Fin 0, Fin 0, Fin 0, Fin 0, Fin 0], requires_grad = False\<rparr>"
    by (simp add: Zeros_def Dot_out_shape_spec_def drop_axis_def ndim_def mk_array_def
          real_dtype_def numeral_eq_Suc)
  show ?thesis
    using Dot_zero_contraction [OF h1 h2 h3 h4, of ref_externs "Some kFloat64" init_engine] h1 h2 h3 h4
    by (simp only: e simp_thms)
qed

text \<open>
  Claim C5.  \<open>Dot\<close> raises a \<open>DimensionError\<close> exactly when both operands have
  rank at least one and the contracted sizes disagree; \<open>Eigh\<close> and \<open>Eigvalsh\<close>
  raise one exactly when the input is not of rank two or not square.  In each such case
  the engine state is returned unchanged, so the error precedes any kernel dispatch.
\<close>

theorem DimensionError_exactly_on_invalid_shapes:
  "((\<exists>msg. fst (Dot X a b od st) = Inl (DimensionError msg))
      \<longleftrightarrow> (0 < ndim a \<and> 0 < ndim b \<and> contracted_a a \<noteq> contracted_b b))
   \<and> ((\<exists>msg. fst (Eigh X c uplo st) = Inl (DimensionError msg))
      \<longleftrightarrow> (ndim c \<noteq> 2 \<or> shape c ! 0 \<noteq> shape c ! 1))
   \<and> ((\<exists>msg. fst (Eigvalsh X c uplo st) = Inl (DimensionError msg))
      \<longleftrightarrow> (ndim c \<noteq> 2 \<or> shape c ! 0 \<noteq> shape c ! 1))
   \<and> ((\<exists>msg. fst (Dot X a b od st) = Inl (DimensionError msg)) \<longrightarrow> snd (Dot X a b od st) = st)
   \<and> ((\<exists>msg. fst (Eigh X c uplo st) = Inl (DimensionError msg)) \<longrightarrow> snd (Eigh X c uplo st) = st)
   \<and> ((\<exists>msg. fst (Eigvalsh X c uplo st) = Inl (DimensionError msg))
        \<longrightarrow> snd (Eigvalsh X c uplo st) = st)"
proof -
  have dot: "((\<exists>msg. fst (Dot X a b od st) = Inl (DimensionError msg))
      \<longleftrightarrow> (0 < ndim a \<and> 0 < ndim b \<and> contracted_a a \<noteq> contracted_b b))
      \<and> ((\<exists>msg. fst (Dot X a b od st) = Inl (DimensionError msg)) \<longrightarrow> snd (Dot X a b od st) = st)"
  proof (cases "ndim a = 0 \<or> ndim b = 0")
    case True
    obtain r where "Multiply X a b = Inr r" using Multiply_scalar [OF True] by blast
    then have "Dot X a b od st = (Inr r, st)" using True by (simp add: Dot_def)
    then show ?thesis using True by auto
  next
    case False
    then have r: "0 < ndim a" "0 < ndim b" by simp_all
    show ?thesis using Dot_outcome [OF r, of X od st] r by auto
  qed
  have eigh: "((\<exists>msg. fst (Eigh X c uplo st) = Inl (DimensionError msg))
      \<longleftrightarrow> (ndim c \<noteq> 2 \<or> shape c ! 0 \<noteq> shape c ! 1))
      \<and> ((\<exists>msg. fst (Eigh X c uplo st) = Inl (DimensionError msg)) \<longrightarrow> snd (Eigh X c uplo st) = st)"
  proof (cases "ndim c \<noteq> 2 \<or> shape c ! 0 \<noteq> shape c ! 1")
    case True
    then show ?thesis using Eigh_invalid [OF True, of X uplo st] by auto
  next
    case False
    then have v: "ndim c = 2" "shape c ! 0 = shape c ! 1" by simp_all
    have "\<not> (\<exists>msg. fst (Eigh X c uplo st) = Inl (DimensionError msg))"
      unfolding Eigh_valid [OF v]
      by (cases "Syevd X c uplo") (simp_all add: Let_def split_beta)
    then show ?thesis using False by blast
  qed
  have eigvalsh: "((\<exists>msg. fst (Eigvalsh X c uplo st) = Inl (DimensionError msg))
      \<longleftrightarrow> (ndim c \<noteq> 2 \<or> shape c ! 0 \<noteq> shape c ! 1))
      \<and> ((\<exists>msg. fst (Eigvalsh X c uplo st) = Inl (DimensionError msg))
          \<longrightarrow> snd (Eigvalsh X c uplo st) = st)"
  proof (cases "ndim c \<noteq> 2 \<or> shape c ! 0 \<noteq> shape c ! 1")
    case True
    then show ?thesis using Eigvalsh_invalid [OF True, of X uplo st] by auto
  next
    case False
    then have v: "ndim c = 2" "shape c ! 0 = shape c ! 1" by simp_all
    have "\<not> (\<exists>msg. fst (Eigvalsh X c uplo st) = Inl (DimensionError msg))"
      unfolding Eigvalsh_valid [OF v]
      by (cases "Syevd X c uplo") (simp_all add: Let_def split_beta)
    then show ?thesis using False by blast
  qed
  show ?thesis using dot eigh eigvalsh by blast
qed

theorem DimensionError_exactly_on_invalid_shapes_witness:
  "(\<exists>msg. fst (Dot ref_externs (mk_array [2, 3] [1, 2, 3, 4, 5, 6] False)
                (mk_array [2, 2] [1, 2, 3, 4] False) None init_engine) = Inl (DimensionError msg))
   \<and> snd (Dot ref_externs (mk_array [2, 3] [1, 2, 3, 4, 5, 6] False)
                (mk_array [2, 2] [1, 2, 3, 4] False) None init_engine) = init_engine
   \<and> (\<exists>msg. fst (Eigh ref_externs (mk_array [2, 3] [1, 2, 3, 4, 5, 6] False) ''L'' init_engine)
               = Inl (DimensionError msg))
   \<and> snd (Eigh ref_externs (mk_array [2, 3] [1, 2, 3, 4, 5, 6] False) ''L'' init_engine) = init_engine
   \<and> (\<exists>msg. fst (Eigvalsh ref_externs (mk_array [2, 3] [1, 2, 3, 4, 5, 6] False) ''L'' init_engine)
               = Inl (DimensionError msg))
   \<and> snd (Eigvalsh ref_externs (mk_array [2, 3] [1, 2, 3, 4, 5, 6] False) ''L'' init_engine)
       = init_engine"
proof -
  let ?A = "mk_array [2, 3] [1, 2, 3, 4, 5, 6] False"
  let ?B = "mk_array [2, 2] [1, 2, 3, 4] False"
  have h: "0 < ndim ?A \<and> 0 < ndim ?B \<and> contracted_a ?A \<noteq> contracted_b ?B"
    by (simp add: contracted_a_def contracted_b_def ndim_def mk_array_def)
  have g: "ndim ?A \<noteq> 2 \<or> shape ?A ! 0 \<noteq> shape ?A ! 1"
    by (simp add: ndim_def mk_array_def)
  note T = DimensionError_exactly_on_invalid_shapes
             [of ref_externs ?A ?B None init_engine ?A "''L''"]
  have d: "\<exists>msg. fst (Dot ref_externs ?A ?B None init_engine) = Inl (DimensionError msg)"
    using T h by (simp only: simp_thms)
  have e: "\<exists>msg. fst (Eigh ref_externs ?A ''L'' init_engine) = Inl (DimensionError msg)"
    using T g by (simp only: simp_thms)
  have f: "\<exists>msg. fst (Eigvalsh ref_externs ?A ''L'' init_engine) = Inl (DimensionError msg)"
    using T g by (simp only: simp_thms)
  show ?thesis
    using T d e f by (simp only: simp_thms)
qed



text \<open>
  Claim C9.  Every kernel invocation of \<open>Dot\<close>, \<open>Eigh\<close> and \<open>Eigvalsh\<close> runs
  with gradient recording suspended (the dispatch is logged with recording off), and the
  stack of recording modes after the call is the one before it, whether the kernel
  succeeds or fails.  On valid operands with a non-zero contraction the kernel is in fact
  dispatched, once.
\<close>

theorem kernels_run_with_recording_suspended:
  "(mode_stack (snd (Dot X a b od st)) = mode_stack st
   \<and> (kernel_log (snd (Dot X a b od st)) = kernel_log st
      \<or> kernel_log (snd (Dot X a b od st)) = kernel_log st @ [(''DotKernel'', False)])
   \<and> (0 < ndim a \<and> 0 < ndim b \<and> contracted_a a = contracted_b b \<and> contracted_a a \<noteq> 0
        \<longrightarrow> kernel_log (snd (Dot X a b od st)) = kernel_log st @ [(''DotKernel'', False)]))
  \<and> (mode_stack (snd (Eigh X c uplo st)) = mode_stack st
   \<and> (kernel_log (snd (Eigh X c uplo st)) = kernel_log st
      \<or> kernel_log (snd (Eigh X c uplo st)) = kernel_log st @ [(''SyevdKernel'', False)])
   \<and> (ndim c = 2 \<and> shape c ! 0 = shape c ! 1
        \<longrightarrow> kernel_log (snd (Eigh X c uplo st)) = kernel_log st @ [(''SyevdKernel'', False)]))
  \<and> (mode_stack (snd (Eigvalsh X c uplo st)) = mode_stack st
   \<and> (kernel_log (snd (Eigvalsh X c uplo st)) = kernel_log st
      \<or> kernel_log (snd (Eigvalsh X c uplo st)) = kernel_log st @ [(''SyevdKernel'', False)])
   \<and> (ndim c = 2 \<and> shape c ! 0 = shape c ! 1
        \<longrightarrow> kernel_log (snd (Eigvalsh X c uplo st)) = kernel_log st @ [(''SyevdKernel'', False)]))"
  by (intro conjI Dot_engine_effect Eigh_engine_effect Eigvalsh_engine_effect)


theorem kernels_run_with_recording_suspended_witness:
  "mode_stack (snd (Dot failing_externs (mk_array [2, 2] [1, 2, 3, 4] True)
                      (mk_array [2, 2] [5, 6, 7, 8] True) None
                      \<lparr>mode_stack = [True], kernel_log = [], tape = []\<rparr>)) = [True]
   \<and> kernel_log (snd (Dot failing_externs (mk_array [2, 2] [1, 2, 3, 4] True)
                      (mk_array [2, 2] [5, 6, 7, 8] True) None
                      \<lparr>mode_stack = [True], kernel_log = [], tape = []\<rparr>)) = [(''DotKernel'', False)]
   \<and> mode_stack (snd (Eigh failing_externs (mk_array [2, 2] [1, 2, 3, 4] True) ''L''
                      \<lparr>mode_stack = [True], kernel_log = [], tape = []\<rparr>)) = [True]
   \<and> kernel_log (snd (Eigh failing_externs (mk_array [2, 2] [1, 2, 3, 4] True) ''L''
                      \<lparr>mode_stack = [True], kernel_log = [], tape = []\<rparr>)) = [(''SyevdKernel'', False)]
   \<and> mode_stack (snd (Eigvalsh failing_externs (mk_array [2, 2] [1, 2, 3, 4] True) ''L''
                      \<lparr>mode_stack = [True], kernel_log = [], tape = []\<rparr>)) = [True]
   \<and> kernel_log (snd (Eigvalsh failing_externs (mk_array [2, 2] [1, 2, 3, 4] True) ''L''
                      \<lparr>mode_stack = [True], kernel_log = [], tape = []\<rparr>)) = [(''SyevdKernel'', False)]"
proof -
  let ?A = "mk_array [2, 2] [1, 2, 3, 4] True"
  let ?B = "mk_array [2, 2] [5, 6, 7, 8] True"
  let ?st = "\<lparr>mode_stack = [True], kernel_log = [], tape = []\<rparr>"
  have h: "0 < ndim ?A \<and> 0 < ndim ?B \<and> contracted_a ?A = contracted_b ?B \<and> contracted_a ?A \<noteq> 0"
    by (simp add: contracted_a_def contracted_b_def ndim_def mk_array_def)
  have g: "ndim ?A = 2 \<and> shape ?A ! 0 = shape ?A ! 1"
    by (simp add: ndim_def mk_array_def)
  show ?thesis
    using kernels_run_with_recording_suspended [of failing_externs ?A ?B None ?st ?A "''L''"] h g
    by simp
qed

text \<open>The same calls with the failing kernels, evaluated: the kernel error is passed on.\<close>

lemma failing_kernel_example:
  "Dot failing_externs (mk_array [2, 2] [1, 2, 3, 4] True) (mk_array [2, 2] [5, 6, 7, 8] True) None
     \<lparr>mode_stack = [True], kernel_log = [], tape = []\<rparr>
   = (Inl (BackendError ''kernel failure''),
      \<lparr>mode_stack = [True], kernel_log = [(''DotKernel'', False)], tape = []\<rparr>)"
  by code_simp

text \<open>
  Claim C8.  On a square matrix \<open>Eigvalsh\<close> returns the eigenvalues that \<open>Eigh\<close>
  returns as its first component (the same shape, dtype and elements, and the same error
  when the solver fails), not connected to any gradient rule; \<open>Eigvalsh\<close> never adds
  a rule to the tape, on any input.
\<close>

theorem Eigvalsh_is_first_of_Eigh:
  "(ndim a = 2 \<and> shape a ! 0 = shape a ! 1 \<longrightarrow>
      fst (Eigvalsh X a uplo st)
        = (case fst (Eigh X a uplo st) of
             Inl e \<Rightarrow> Inl e
           | Inr (w, v) \<Rightarrow> Inr (w\<lparr>requires_grad := False\<rparr>)))
   \<and> tape (snd (Eigvalsh X a uplo st)) = tape st"
proof (cases "ndim a \<noteq> 2 \<or> shape a ! 0 \<noteq> shape a ! 1")
  case True
  then show ?thesis using Eigvalsh_invalid [OF True, of X uplo st] by auto
next
  case False
  then have v: "ndim a = 2" "shape a ! 0 = shape a ! 1" by simp_all
  show ?thesis unfolding Eigvalsh_valid [OF v] Eigh_valid [OF v]
    by (cases "Syevd X a uplo") (simp_all add: Let_def split_beta)
qed

theorem Eigvalsh_is_first_of_Eigh_witness:
  "(ndim (mk_array [2, 2] [1, 0, 0, 3] True) = 2
     \<and> shape (mk_array [2, 2] [1, 0, 0, 3] True) ! 0 = shape (mk_array [2, 2] [1, 0, 0, 3] True) ! 1)
   \<and> fst (Eigvalsh ref_externs (mk_array [2, 2] [1, 0, 0, 3] True) ''L'' init_engine)
       = Inr \<lparr>shape = [2], dtype = kFloat32, elems = [Fin 1, Fin 3], requires_grad = False\<rparr>
   \<and> tape (snd (Eigvalsh ref_externs (mk_array [2, 2] [1, 0, 0, 3] True) ''L'' init_engine))
       = tape init_engine"
proof -
  let ?A = "mk_array [2, 2] [1, 0, 0, 3] True"
  have g: "ndim ?A = 2 \<and> shape ?A ! 0 = shape ?A ! 1"
    by (simp add: ndim_def mk_array_def)
  show ?thesis
    using Eigvalsh_is_first_of_Eigh [of ?A ref_externs "''L''" init_engine] g
    by (simp add: Eigh_example)
qed

text \<open>
  Claim C3, as amended.  When \<open>Dot\<close> reaches its kernel and the kernel succeeds, it
  finalizes one rule named \<open>dot\<close> over the reduced matrices \<open>a_matrix\<close>
  (\<open>m \<times> k\<close>, the elements of \<open>a\<close>) and \<open>b_matrix\<close> (\<open>k \<times> n\<close>).  The
  rule has one target per operand that is differentiable in the current context: target 0
  for \<open>a\<close>, which retains input 1 only (\<open>b_matrix\<close>) and computes
  \<open>Dot (gout, transpose b_matrix)\<close> in the dtype of \<open>a\<close>, and target 1 for
  \<open>b\<close>, which retains input 0 only (\<open>a_matrix\<close>) and computes
  \<open>Dot (transpose a_matrix, gout)\<close> in the dtype of \<open>b\<close>; both call the public
  \<open>Dot\<close> itself.  With both operands differentiable these are exactly the two
  targets.
\<close>

theorem Dot_gradient_targets:
  assumes "0 < ndim a" "0 < ndim b" "contracted_a a = contracted_b b" "contracted_a a \<noteq> 0"
    and "DotKernel X (a_matrix_of a) (b_matrix_of b)
           (Empty [GetTotalSize a div contracted_a a, GetTotalSize b div contracted_a a]
              (real_dtype X a b od)) = Inr d"
  shows "tape (snd (Dot X a b od st))
           = tape st @ [OpNode ''dot'' (dot_targets st a b (a_matrix_of a) (b_matrix_of b))]
     \<and> dot_targets st a b (a_matrix_of a) (b_matrix_of b)
           = (if is_recording st \<and> requires_grad a
              then [Target 0 [1] [] (DotGradA (b_matrix_of b) (dtype a))] else []) @
             (if is_recording st \<and> requires_grad b
              then [Target 1 [0] [] (DotGradB (a_matrix_of a) (dtype b))] else [])
     \<and> (is_recording st \<and> requires_grad a \<and> requires_grad b \<longrightarrow>
          dot_targets st a b (a_matrix_of a) (b_matrix_of b)
            = [Target 0 [1] [] (DotGradA (b_matrix_of b) (dtype a)),
               Target 1 [0] [] (DotGradB (a_matrix_of a) (dtype b))])
     \<and> shape (a_matrix_of a) = [GetTotalSize a div contracted_a a, contracted_a a]
     \<and> elems (a_matrix_of a) = elems a
     \<and> shape (b_matrix_of b) = [contracted_a a, GetTotalSize b div contracted_a a]
     \<and> (ndim b \<le> 2 \<longrightarrow> elems (b_matrix_of b) = elems b)
     \<and> (\<forall>gout st'. invoke X (DotGradA (b_matrix_of b) (dtype a)) [Some gout] st'
                      = Dot X gout (Transpose (b_matrix_of b)) (Some (dtype a)) st')
     \<and> (\<forall>gout st'. invoke X (DotGradB (a_matrix_of a) (dtype b)) [Some gout] st'
                      = Dot X (Transpose (a_matrix_of a)) gout (Some (dtype b)) st')
     \<and> (\<forall>gout st' r. 0 < ndim gout
            \<and> fst (Dot X gout (Transpose (b_matrix_of b)) (Some (dtype a)) st') = Inr r
          \<longrightarrow> dtype r = dtype a)
     \<and> (\<forall>gout st' r. 0 < ndim gout
            \<and> fst (Dot X (Transpose (a_matrix_of a)) gout (Some (dtype b)) st') = Inr r
          \<longrightarrow> dtype r = dtype b)"
proof -
  note K1 = Dot_kernel_explicit(1) [OF assms(1-4), of X od st]
  note K2 = Dot_kernel_explicit(2) [OF assms(1-4)]
  have t1: "tape (snd (Dot X a b od st))
           = tape st @ [OpNode ''dot'' (dot_targets st a b (a_matrix_of a) (b_matrix_of b))]"
    unfolding K1 assms(5) by simp
  have t2: "dot_targets st a b (a_matrix_of a) (b_matrix_of b)
           = (if is_recording st \<and> requires_grad a
              then [Target 0 [1] [] (DotGradA (b_matrix_of b) (dtype a))] else []) @
             (if is_recording st \<and> requires_grad b
              then [Target 1 [0] [] (DotGradB (a_matrix_of a) (dtype b))] else [])"
    by (rule dot_targets_def)
  have t3: "is_recording st \<and> requires_grad a \<and> requires_grad b \<longrightarrow>
          dot_targets st a b (a_matrix_of a) (b_matrix_of b)
            = [Target 0 [1] [] (DotGradA (b_matrix_of b) (dtype a)),
               Target 1 [0] [] (DotGradB (a_matrix_of a) (dtype b))]"
    by (simp add: dot_targets_def)
  have t4: "ndim b \<le> 2 \<longrightarrow> elems (b_matrix_of b) = elems b"
    using b_matrix_of_low by blast
  have nb: "0 < ndim (Transpose (b_matrix_of b))"
    using Transpose_matrix_shape [OF K2] by (simp add: ndim_def)
  have na: "0 < ndim (Transpose (a_matrix_of a))"
    using Transpose_matrix_shape [OF a_matrix_of_props(1)] by (simp add: ndim_def)
  have d4: "dtype r = dtype a"
    if "0 < ndim gout" "fst (Dot X gout (Transpose (b_matrix_of b)) (Some (dtype a)) st') = Inr r"
    for gout st' r
    using Dot_result_dtype [OF that(1) nb that(2)] by (simp add: real_dtype_def)
  have d5: "dtype r = dtype b"
    if "0 < ndim gout" "fst (Dot X (Transpose (a_matrix_of a)) gout (Some (dtype b)) st') = Inr r"
    for gout st' r
    using Dot_result_dtype [OF na that(1) that(2)] by (simp add: real_dtype_def)
  have t5: "\<forall>gout st' r. 0 < ndim gout
            \<and> fst (Dot X gout (Transpose (b_matrix_of b)) (Some (dtype a)) st') = Inr r
          \<longrightarrow> dtype r = dtype a"
    using d4 by blast
  have t6: "\<forall>gout st' r. 0 < ndim gout
            \<and> fst (Dot X (Transpose (a_matrix_of a)) gout (Some (dtype b)) st') = Inr r
          \<longrightarrow> dtype r = dtype b"
    using d5 by blast
  have i4: "\<forall>gout st'. invoke X (DotGradA (b_matrix_of b) (dtype a)) [Some gout] st'
                      = Dot X gout (Transpose (b_matrix_of b)) (Some (dtype a)) st'"
    by simp
  have i5: "\<forall>gout st'. invoke X (DotGradB (a_matrix_of a) (dtype b)) [Some gout] st'
                      = Dot X (Transpose (a_matrix_of a)) gout (Some (dtype b)) st'"
    by simp
  show ?thesis
    apply (intro conjI)
              apply (rule t1)
             apply (rule t2)
            apply (rule t3)
           apply (rule a_matrix_of_props(1))
          apply (rule a_matrix_of_props(2))
         apply (rule K2)
        apply (rule t4)
       apply (rule i4)
      apply (rule i5)
     apply (rule t5)
    apply (rule t6)
    done
qed

theorem Dot_gradient_targets_witness:
  "0 < ndim (mk_array [2, 2] [1, 2, 3, 4] True) \<and> 0 < ndim (mk_array [2, 2] [5, 6, 7, 8] True)
   \<and> contracted_a (mk_array [2, 2] [1, 2, 3, 4] True) = contracted_b (mk_array [2, 2] [5, 6, 7, 8] True)
   \<and> contracted_a (mk_array [2, 2] [1, 2, 3, 4] True) \<noteq> 0
   \<and> tape (snd (Dot ref_externs (mk_array [2, 2] [1, 2, 3, 4] True)
                   (mk_array [2, 2] [5, 6, 7, 8] True) None init_engine))
       = [OpNode ''dot''
            [Target 0 [1] [] (DotGradA (mk_array [2, 2] [5, 6, 7, 8] True) kFloat32),
             Target 1 [0] [] (DotGradB (mk_array [2, 2] [1, 2, 3, 4] True) kFloat32)]]
   \<and> fst (invoke ref_externs (DotGradA (mk_array [2, 2] [5, 6, 7, 8] True) kFloat32)
             [Some (mk_array [2, 2] [1, 1, 1, 1] False)] init_engine)
       = fst (Dot ref_externs (mk_array [2, 2] [1, 1, 1, 1] False)
                (Transpose (mk_array [2, 2] [5, 6, 7, 8] True)) (Some kFloat32) init_engine)"
proof -
  let ?A = "mk_array [2, 2] [1, 2, 3, 4] True"
  let ?B = "mk_array [2, 2] [5, 6, 7, 8] True"
  have h1: "0 < ndim ?A" by (simp add: ndim_def mk_array_def)
  have h2: "0 < ndim ?B" by (simp add: ndim_def mk_array_def)
  have h3: "contracted_a ?A = contracted_b ?B"
    by (simp add: contracted_a_def contracted_b_def ndim_def mk_array_def)
  have h4: "contracted_a ?A \<noteq> 0" by (simp add: contracted_a_def mk_array_def)
  have k: "dtype ?A = kFloat32" "dtype ?B = kFloat32" "requires_grad ?A" "requires_grad ?B"
      "is_recording init_engine" "tape init_engine = []"
    by (simp_all add: mk_array_def is_recording_def init_engine_def)
  note T = Dot_gradient_targets [OF h1 h2 h3 h4 Dot_matrices_example(3), of init_engine,
             unfolded Dot_matrices_example(1,2) k]
  have c1: "tape (snd (Dot ref_externs ?A ?B None init_engine))
       = [OpNode ''dot'' [Target 0 [1] [] (DotGradA ?B kFloat32),
                          Target 1 [0] [] (DotGradB ?A kFloat32)]]"
    using T k by simp
  have c2: "fst (invoke ref_externs (DotGradA ?B kFloat32)
             [Some (mk_array [2, 2] [1, 1, 1, 1] False)] init_engine)
       = fst (Dot ref_externs (mk_array [2, 2] [1, 1, 1, 1] False)
                (Transpose ?B) (Some kFloat32) init_engine)"
    using T by simp
  show ?thesis using h1 h2 h3 h4 c1 c2 by blast
qed

text \<open>
  Claim C3 as first stated asks for exactly two targets on every call.  Each target sits
  behind its own \<open>CreateTarget\<close> guard: with a left operand that requires a gradient
  and a right operand that does not, the rule has the single target 0.
\<close>

theorem Dot_single_target_counterexample:
  "tape (snd (Dot ref_externs (mk_array [2, 2] [1, 2, 3, 4] True)
                (mk_array [2, 2] [5, 6, 7, 8] False) None init_engine))
   = [OpNode ''dot'' [Target 0 [1] [] (DotGradA (mk_array [2, 2] [5, 6, 7, 8] False) kFloat32)]]"
  by code_simp

text \<open>
  Claim C1.  When \<open>Eigh\<close> returns \<open>(w, v)\<close> for an input that is differentiable,
  the closure it registers is the one over \<open>a\<close> and these very outputs, \<open>w\<close> of
  shape \<open>[n]\<close> and \<open>v\<close> of shape \<open>[n, n]\<close>.  The closure builds
  \<open>F[i,j] = w[j] - w[i]\<close> by broadcasting, replaces the diagonal by positive
  infinity and inverts elementwise, so that \<open>F\<close> is exactly zero on the diagonal and
  \<open>1 / (w[j] - w[i])\<close> off it, and returns
  \<open>v \<cdot> (F \<odot> (v\<^sup>t \<cdot> grad_v) + diag grad_w) \<cdot> v\<^sup>t\<close>, each product being the
  public \<open>Dot\<close>.
\<close>

theorem Eigh_gradient_formula:
  assumes "fst (Eigh X a uplo st) = Inr (w, v)" "is_recording st" "requires_grad a"
  shows "tape (snd (Eigh X a uplo st))
           = tape st @ [OpNode ''eigh'' [Target 0 [0] [0, 1] (EighGrad a (detached w) (detached v))]]
       \<and> shape (detached w) = [shape a ! 0]
       \<and> shape (detached v) = [shape a ! 0, shape a ! 0]
       \<and> elems (detached w) = elems w \<and> elems (detached v) = elems v
       \<and> Subtract X (ExpandDims (detached w) 0) (ExpandDims (detached w) 1)
           = Inr (F_difference X (detached w))
       \<and> Where_scalar (Eye (shape a ! 0) (shape a ! 0) 0 kBool) PInf (F_difference X (detached w))
           = Inr (F_masked X (detached w))
       \<and> Reciprocal (F_masked X (detached w)) = F_spec X (detached w)
       \<and> (\<forall>gw gv st'. invoke X (EighGrad a (detached w) (detached v)) [Some gw, Some gv] st'
                        = Eigh_grad_formula X (detached w) (detached v) gw gv st')"
proof -
  note S = Eigh_success [OF assms]
  have sw: "shape (detached w) = [shape a ! 0]" using S(2) by (simp add: detached_def)
  have sv: "shape (detached v) = [shape a ! 0, shape a ! 0]" using S(3) by (simp add: detached_def)
  have el: "elems (detached w) = elems w \<and> elems (detached v) = elems v"
    by (simp add: detached_def)
  have f: "\<forall>gw gv st'. invoke X (EighGrad a (detached w) (detached v)) [Some gw, Some gv] st'
                        = Eigh_grad_formula X (detached w) (detached v) gw gv st'"
    by (simp add: EighBackward_formula [OF sw] grad_or_zeros_def)
  show ?thesis
    apply (intro conjI)
            apply (rule S(1))
           apply (rule sw)
          apply (rule sv)
         apply (rule conjunct1 [OF el])
        apply (rule conjunct2 [OF el])
       apply (rule Subtract_row_column [OF sw])
      apply (rule Where_diagonal [OF sw])
     apply (rule Reciprocal_masked)
    apply (rule f)
    done
qed

theorem Eigh_gradient_formula_witness:
  "fst (Eigh ref_externs (mk_array [2, 2] [1, 0, 0, 3] True) ''L'' init_engine)
     = Inr (mk_array [2] [1, 3] True, mk_array [2, 2] [1, 0, 0, 1] True)
   \<and> is_recording init_engine \<and> requires_grad (mk_array [2, 2] [1, 0, 0, 3] True)
   \<and> tape (snd (Eigh ref_externs (mk_array [2, 2] [1, 0, 0, 3] True) ''L'' init_engine))
       = [OpNode ''eigh'' [Target 0 [0] [0, 1]
            (EighGrad (mk_array [2, 2] [1, 0, 0, 3] True) (mk_array [2] [1, 3] False)
               (mk_array [2, 2] [1, 0, 0, 1] False))]]
   \<and> Reciprocal (F_masked ref_externs (mk_array [2] [1, 3] False))
       = \<lparr>shape = [2, 2], dtype = kFloat32,
          elems = [Fin 0, Fin (1 / 2), Fin (- (1 / 2)), Fin 0], requires_grad = False\<rparr>
   \<and> fst (invoke ref_externs
            (EighGrad (mk_array [2, 2] [1, 0, 0, 3] True) (mk_array [2] [1, 3] False)
               (mk_array [2, 2] [1, 0, 0, 1] False))
            [Some (mk_array [2] [5, 7] False), Some (mk_array [2, 2] [1, 2, 3, 4] False)] init_engine)
       = Inr \<lparr>shape = [2, 2], dtype = kFloat32,
              elems = [Fin 5, Fin 1, Fin (- (3 / 2)), Fin 7], requires_grad = False\<rparr>"
proof -
  let ?A = "mk_array [2, 2] [1, 0, 0, 3] True"
  have h1: "fst (Eigh ref_externs ?A ''L'' init_engine)
     = Inr (mk_array [2] [1, 3] True, mk_array [2, 2] [1, 0, 0, 1] True)"
    by (rule Eigh_forward_example(1))
  have h2: "is_recording init_engine" by (simp add: is_recording_def init_engine_def)
  have h3: "requires_grad ?A" by (simp add: mk_array_def)
  have t0: "tape init_engine = []" by (simp add: init_engine_def)
  note T = Eigh_gradient_formula [OF h1 h2 h3, unfolded Eigh_forward_example(2,3) t0]
  have c1: "tape (snd (Eigh ref_externs ?A ''L'' init_engine))
       = [OpNode ''eigh'' [Target 0 [0] [0, 1]
            (EighGrad ?A (mk_array [2] [1, 3] False) (mk_array [2, 2] [1, 0, 0, 1] False))]]"
    using T by simp
  have c2: "Reciprocal (F_masked ref_externs (mk_array [2] [1, 3] False))
       = \<lparr>shape = [2, 2], dtype = kFloat32,
          elems = [Fin 0, Fin (1 / 2), Fin (- (1 / 2)), Fin 0], requires_grad = False\<rparr>"
    using T unfolding Eigh_formula_example(1) by blast
  have "invoke ref_externs
            (EighGrad ?A (mk_array [2] [1, 3] False) (mk_array [2, 2] [1, 0, 0, 1] False))
            [Some (mk_array [2] [5, 7] False), Some (mk_array [2, 2] [1, 2, 3, 4] False)] init_engine
        = Eigh_grad_formula ref_externs (mk_array [2] [1, 3] False) (mk_array [2, 2] [1, 0, 0, 1] False)
            (mk_array [2] [5, 7] False) (mk_array [2, 2] [1, 2, 3, 4] False) init_engine"
    using T by blast
  then have c3: "fst (invoke ref_externs
            (EighGrad ?A (mk_array [2] [1, 3] False) (mk_array [2, 2] [1, 0, 0, 1] False))
            [Some (mk_array [2] [5, 7] False), Some (mk_array [2, 2] [1, 2, 3, 4] False)] init_engine)
       = Inr \<lparr>shape = [2, 2], dtype = kFloat32,
              elems = [Fin 5, Fin 1, Fin (- (3 / 2)), Fin 7], requires_grad = False\<rparr>"
    by (simp only: Eigh_formula_example(2))
  show ?thesis using h1 h2 h3 c1 c2 c3 by blast
qed

text \<open>
  Claim C7.  The closure that \<open>Eigh\<close> registers computes the gradient formula on
  the output gradients it is given, after replacing each absent one by the zero tensor of
  the expected shape, \<open>[n]\<close> for the gradient of \<open>w\<close> and \<open>[n, n]\<close> for the
  gradient of \<open>v\<close>, and of the dtype of \<open>a\<close>; a gradient that is present is used
  as it is.
\<close>

theorem Eigh_missing_gradients_are_zero:
  assumes "fst (Eigh X a uplo st) = Inr (w, v)" "is_recording st" "requires_grad a"
  shows "tape (snd (Eigh X a uplo st))
           = tape st @ [OpNode ''eigh'' [Target 0 [0] [0, 1] (EighGrad a (detached w) (detached v))]]
       \<and> (\<forall>grad_w grad_v st'.
             invoke X (EighGrad a (detached w) (detached v)) [grad_w, grad_v] st'
               = Eigh_grad_formula X (detached w) (detached v)
                   (grad_or_zeros [shape a ! 0] (dtype a) grad_w)
                   (grad_or_zeros [shape a ! 0, shape a ! 0] (dtype a) grad_v) st')
       \<and> (\<forall>s dt. grad_or_zeros s dt None = Zeros s dt)
       \<and> (\<forall>s dt g. grad_or_zeros s dt (Some g) = g)"
proof -
  note S = Eigh_success [OF assms]
  have sw: "shape (detached w) = [shape a ! 0]" using S(2) by (simp add: detached_def)
  have sv: "shape (detached v) = [shape a ! 0, shape a ! 0]" using S(3) by (simp add: detached_def)
  have f: "\<forall>grad_w grad_v st'.
             invoke X (EighGrad a (detached w) (detached v)) [grad_w, grad_v] st'
               = Eigh_grad_formula X (detached w) (detached v)
                   (grad_or_zeros [shape a ! 0] (dtype a) grad_w)
                   (grad_or_zeros [shape a ! 0, shape a ! 0] (dtype a) grad_v) st'"
    using EighBackward_formula [OF sw, of X a "detached v"] unfolding sw sv by simp
  show ?thesis
    apply (intro conjI)
       apply (rule S(1))
      apply (rule f)
     apply (simp add: grad_or_zeros_def)
    apply (simp add: grad_or_zeros_def)
    done
qed

theorem Eigh_missing_gradients_are_zero_witness:
  "fst (Eigh ref_externs (mk_array [2, 2] [1, 0, 0, 3] True) ''L'' init_engine)
     = Inr (mk_array [2] [1, 3] True, mk_array [2, 2] [1, 0, 0, 1] True)
   \<and> is_recording init_engine \<and> requires_grad (mk_array [2, 2] [1, 0, 0, 3] True)
   \<and> fst (invoke ref_externs
            (EighGrad (mk_array [2, 2] [1, 0, 0, 3] True) (mk_array [2] [1, 3] False)
               (mk_array [2, 2] [1, 0, 0, 1] False))
            [Some (mk_array [2] [5, 7] False), None] init_engine)
       = Inr \<lparr>shape = [2, 2], dtype = kFloat32,
              elems = [Fin 5, Fin 0, Fin 0, Fin 7], requires_grad = False\<rparr>
   \<and> fst (invoke ref_externs
            (EighGrad (mk_array [2, 2] [1, 0, 0, 3] True) (mk_array [2] [1, 3] False)
               (mk_array [2, 2] [1, 0, 0, 1] False))
            [None, Some (mk_array [2, 2] [1, 2, 3, 4] False)] init_engine)
       = Inr \<lparr>shape = [2, 2], dtype = kFloat32,
              elems = [Fin 0, Fin 1, Fin (- (3 / 2)), Fin 0], requires_grad = False\<rparr>"
proof -
  let ?A = "mk_array [2, 2] [1, 0, 0, 3] True"
  let ?W = "mk_array [2] [1, 3] False"
  let ?V = "mk_array [2, 2] [1, 0, 0, 1] False"
  have h1: "fst (Eigh ref_externs ?A ''L'' init_engine)
     = Inr (mk_array [2] [1, 3] True, mk_array [2, 2] [1, 0, 0, 1] True)"
    by (rule Eigh_forward_example(1))
  have h2: "is_recording init_engine" by (simp add: is_recording_def init_engine_def)
  have h3: "requires_grad ?A" by (simp add: mk_array_def)
  have k: "shape ?A ! 0 = 2" "dtype ?A = kFloat32" by (simp_all add: mk_array_def)
  note T = Eigh_missing_gradients_are_zero [OF h1 h2 h3, unfolded Eigh_forward_example(2,3) k]
  have z: "grad_or_zeros [2, 2] kFloat32 None = Zeros [2, 2] kFloat32"
      "grad_or_zeros [2] kFloat32 None = Zeros [2] kFloat32"
      "\<And>g. grad_or_zeros [2] kFloat32 (Some g) = g"
      "\<And>g. grad_or_zeros [2, 2] kFloat32 (Some g) = g"
    using T by blast+
  have "invoke ref_externs (EighGrad ?A ?W ?V) [Some (mk_array [2] [5, 7] False), None] init_engine
        = Eigh_grad_formula ref_externs ?W ?V
            (grad_or_zeros [2] kFloat32 (Some (mk_array [2] [5, 7] False)))
            (grad_or_zeros [2, 2] kFloat32 None) init_engine"
    using T by blast
  then have c1: "fst (invoke ref_externs (EighGrad ?A ?W ?V)
                   [Some (mk_array [2] [5, 7] False), None] init_engine)
       = Inr \<lparr>shape = [2, 2], dtype = kFloat32,
              elems = [Fin 5, Fin 0, Fin 0, Fin 7], requires_grad = False\<rparr>"
    by (simp only: z Eigh_formula_example(3))
  have "invoke ref_externs (EighGrad ?A ?W ?V) [None, Some (mk_array [2, 2] [1, 2, 3, 4] False)] init_engine
        = Eigh_grad_formula ref_externs ?W ?V
            (grad_or_zeros [2] kFloat32 None)
            (grad_or_zeros [2, 2] kFloat32 (Some (mk_array [2, 2] [1, 2, 3, 4] False))) init_engine"
    using T by blast
  then have c2: "fst (invoke ref_externs (EighGrad ?A ?W ?V)
                   [None, Some (mk_array [2, 2] [1, 2, 3, 4] False)] init_engine)
       = Inr \<lparr>shape = [2, 2], dtype = kFloat32,
              elems = [Fin 0, Fin 1, Fin (- (3 / 2)), Fin 0], requires_grad = False\<rparr>"
    by (simp only: z Eigh_formula_example(4))
  show ?thesis using h1 h2 h3 c1 c2 by blast
qed

end
